theory Spec2Isabelle
  imports Complex_Main
begin

section \<open>Conventions of the embedding\<close>

text \<open>
  The program is \<^verbatim>\<open>Calcular_Salario.py\<close>, a payroll calculator. Its calculation
  functions are pure functions of Python \<^verbatim>\<open>float\<close>, \<^verbatim>\<open>int\<close> and \<^verbatim>\<open>str\<close> values.

  \<^item> A Python \<^verbatim>\<open>float\<close> is modelled by a \<^typ>\<open>real\<close> and the operators
    \<^verbatim>\<open>+ - * /\<close> by exact arithmetic: the functions are the program run without
    rounding error, and a decimal literal of the source (\<^verbatim>\<open>0.075\<close>, \<^verbatim>\<open>2793.88\<close>)
    stands for its decimal value. The last section of definitions gives the IEEE 754
    binary64 reading of one function, for the one property that speaks of the exact
    equality of computed floats.
  \<^item> A Python \<^verbatim>\<open>int\<close> is an \<^typ>\<open>int\<close>.
  \<^item> A Python \<^verbatim>\<open>str\<close> is a \<^typ>\<open>string\<close>. The letters of the output texts that are
    not ASCII are written as their UTF-8 bytes; the program only concatenates these
    texts.
  \<^item> An exception is a value of type \<open>error\<close>, and a function that can raise returns
    \<open>error + 'a\<close> with \<open>Inl\<close> for the exception.
\<close>

datatype error = ValueError | ZeroDivisionError | IllegalMonthError

section \<open>Constants\<close>

definition SEPARATOR :: string where
  "SEPARATOR = ''--------------------------------------------------------------------''"

definition INSS_LIMITS :: "real list" where
  "INSS_LIMITS = [1518.00, 2793.88, 4190.83, 8157.41]"

definition INSS_RATES :: "real list" where
  "INSS_RATES = [0.075, 0.09, 0.12, 0.14]"

definition SALARIO_MINIMO :: real where
  "SALARIO_MINIMO = 1518.00"

section \<open>Strings and number formatting of the language\<close>

text \<open>
  \<^verbatim>\<open>s.replace(old, new)\<close> for an \<open>old\<close> of one character, the only use the program
  makes of it.
\<close>

definition str_replace :: "char \<Rightarrow> string \<Rightarrow> string \<Rightarrow> string" where
  "str_replace old new s = concat (map (\<lambda>c. if c = old then new else [c]) s)"

text \<open>\<^verbatim>\<open>s.strip()\<close>, on the ASCII white space characters.\<close>

definition isspace :: "char \<Rightarrow> bool" where
  "isspace c = (c \<in> set [CHR '' '', CHR 0x09, CHR 0x0A, CHR 0x0B, CHR 0x0C, CHR 0x0D,
                          CHR 0x1C, CHR 0x1D, CHR 0x1E, CHR 0x1F])"

definition strip :: "string \<Rightarrow> string" where
  "strip s = rev (dropWhile isspace (rev (dropWhile isspace s)))"

text \<open>\<^verbatim>\<open>sep.join(xs)\<close>.\<close>

definition join :: "string \<Rightarrow> string list \<Rightarrow> string" where
  "join sep xs = (case xs of [] \<Rightarrow> [] | x # r \<Rightarrow> x @ concat (map (\<lambda>y. sep @ y) r))"

text \<open>Decimal digits of a number \<open>n \<ge> 0\<close>, and \<^verbatim>\<open>str(i)\<close> of an \<^verbatim>\<open>int\<close>.\<close>

definition digit_char :: "int \<Rightarrow> char" where
  "digit_char d = ''0123456789'' ! nat d"

function str_nat :: "int \<Rightarrow> string" where
  "str_nat n = (if n < 10 then [digit_char n] else str_nat (n div 10) @ [digit_char (n mod 10)])"
  by pat_completeness auto
termination
  by (relation "measure nat") auto

declare str_nat.simps [simp del]

definition str_int :: "int \<Rightarrow> string" where
  "str_int i = (if i < 0 then ''-'' @ str_nat (- i) else str_nat i)"

text \<open>
  Rounding to the nearest integer, a tie going to the even neighbour: the rounding of
  Python's number formatting and of IEEE 754 arithmetic.
\<close>

definition round_half_even :: "real \<Rightarrow> int" where
  "round_half_even x =
     (let f = \<lfloor>x\<rfloor>; r = x - of_int f
      in if r < 1/2 then f else if r > 1/2 then f + 1 else if even f then f else f + 1)"

text \<open>
  The format specifications \<^verbatim>\<open>{x:,.2f}\<close> (\<open>grouping\<close> true) and \<^verbatim>\<open>{x:.2f}\<close>
  (\<open>grouping\<close> false): two decimals, the sign of \<open>x\<close> kept also when the digits round to
  zero, and with \<^verbatim>\<open>,\<close> a comma before every group of three digits of the integer part.
\<close>

fun group3 :: "string \<Rightarrow> string" where
  "group3 s = (if length s \<le> 3 then s
               else group3 (take (length s - 3) s) @ '','' @ drop (length s - 3) s)"

declare group3.simps [simp del]

definition format_2f :: "bool \<Rightarrow> real \<Rightarrow> string" where
  "format_2f grouping x =
     (let c = round_half_even (\<bar>x\<bar> * 100);
          ip = str_nat (c div 100)
      in (if x < 0 then ''-'' else '''') @ (if grouping then group3 ip else ip) @ ''.'' @
         [digit_char (c mod 100 div 10), digit_char (c mod 10)])"

text \<open>
  \<^verbatim>\<open>float(text)\<close> on decimal numerals: white space around, an optional sign, digits
  with at most one point and at least one digit. Every other text is \<open>ValueError\<close> here;
  the forms of Python's \<^verbatim>\<open>float\<close> beyond decimal numerals (an exponent,
  \<^verbatim>\<open>inf\<close>, \<^verbatim>\<open>nan\<close>, underscores between digits) are outside this model.
\<close>

definition is_digit :: "char \<Rightarrow> bool" where
  "is_digit c = (c \<in> set ''0123456789'')"

definition digit_val :: "char \<Rightarrow> int" where
  "digit_val c = of_char c - of_char CHR ''0''"

definition int_of_digits :: "string \<Rightarrow> int" where
  "int_of_digits s = foldl (\<lambda>a c. 10 * a + digit_val c) 0 s"

definition py_float :: "string \<Rightarrow> error + real" where
  "py_float text =
     (let s = strip text;
          neg = (s \<noteq> [] \<and> hd s = CHR ''-'');
          body = (if s \<noteq> [] \<and> (hd s = CHR ''-'' \<or> hd s = CHR ''+'') then tl s else s);
          ip = takeWhile (\<lambda>c. c \<noteq> CHR ''.'') body;
          fp = drop (Suc (length ip)) body
      in if (ip = [] \<and> fp = []) \<or> \<not> list_all is_digit (ip @ fp) then Inl ValueError
         else let v = of_int (int_of_digits ip) + of_int (int_of_digits fp) / 10 ^ length fp
              in Inr (if neg then - v else v))"

text \<open>\<^verbatim>\<open>a / b\<close> of two floats raises on a zero divisor.\<close>

definition truediv :: "real \<Rightarrow> real \<Rightarrow> error + real" where
  "truediv a b = (if b = 0 then Inl ZeroDivisionError else Inr (a / b))"

section \<open>Formatting and parsing of amounts\<close>

text \<open>
  \<^verbatim>\<open>formatar_valor\<close> asks the C library's locale for the text and falls back to its
  own formatting when that raises. The call
  \<^verbatim>\<open>locale.currency(valor, symbol=False, grouping=True)\<close> is the parameter
  \<open>currency\<close>, whose result depends on the locale of the process; \<open>Inl\<close> is any
  exception, which \<^verbatim>\<open>except Exception\<close> catches.
\<close>

definition formatar_valor :: "(real \<Rightarrow> error + string) \<Rightarrow> real \<Rightarrow> string" where
  "formatar_valor currency valor =
     (case currency valor of
        Inr s \<Rightarrow> strip s
      | Inl e \<Rightarrow> str_replace CHR ''X'' ''.'' (str_replace CHR ''.'' '','' (str_replace CHR '','' ''X''
                  (format_2f True valor))))"

text \<open>
  \<^verbatim>\<open>locale.currency(valor, symbol=False, grouping=True)\<close> of Python's standard
  library in three locales of the process. The library writes the absolute value with
  the number of decimals of the locale (\<^verbatim>\<open>frac_digits\<close>), groups the integer part by
  \<^verbatim>\<open>mon_grouping\<close> with \<^verbatim>\<open>mon_thousands_sep\<close>, writes \<^verbatim>\<open>mon_decimal_point\<close> for the
  point and puts \<^verbatim>\<open>negative_sign\<close> in front of a value below zero
  (\<^verbatim>\<open>n_sign_posn = 1\<close>); with \<^verbatim>\<open>frac_digits = 127\<close> it raises \<^verbatim>\<open>ValueError\<close>.
  \<^item> The C locale has \<^verbatim>\<open>frac_digits = 127\<close>.
  \<^item> \<^verbatim>\<open>en_US.UTF-8\<close> has two decimals, groups of three digits, the separator
    \<^verbatim>\<open>,\<close> and the point \<^verbatim>\<open>.\<close>: the text of \<^verbatim>\<open>{valor:,.2f}\<close>.
  \<^item> \<^verbatim>\<open>pt_BR.UTF-8\<close> has two decimals, groups of three digits, the separator
    \<^verbatim>\<open>.\<close> and the point \<^verbatim>\<open>,\<close>: the text of \<^verbatim>\<open>{valor:,.2f}\<close> with the two
    characters exchanged.

  The program asks for \<^verbatim>\<open>pt_BR.UTF-8\<close> when it starts and, when the system does not
  have this locale, takes the default locale of the environment instead
  (\<^verbatim>\<open>except locale.Error: locale.setlocale(locale.LC_ALL, '')\<close>), which can be any of
  the three.
\<close>

definition currency_C :: "real \<Rightarrow> error + string" where
  "currency_C valor = Inl ValueError"

definition currency_en_US :: "real \<Rightarrow> error + string" where
  "currency_en_US valor = Inr (format_2f True valor)"

definition currency_pt_BR :: "real \<Rightarrow> error + string" where
  "currency_pt_BR valor =
     Inr (str_replace CHR ''X'' ''.'' (str_replace CHR ''.'' '','' (str_replace CHR '','' ''X''
            (format_2f True valor))))"

definition limpar_formato :: "string \<Rightarrow> error + real" where
  "limpar_formato valor =
     (if valor = [] then Inr 0.0
      else py_float (str_replace CHR '','' ''.'' (str_replace CHR ''.'' [] valor)))"

text \<open>
  The three replacements of the fallback of \<^verbatim>\<open>formatar_valor\<close> followed by the two of
  \<^verbatim>\<open>limpar_formato\<close>: what the parser's \<^verbatim>\<open>float\<close> receives for a text that the
  fallback wrote.
\<close>

definition normalizar :: "string \<Rightarrow> string" where
  "normalizar s =
     str_replace CHR '','' ''.'' (str_replace CHR ''.'' []
       (str_replace CHR ''X'' ''.'' (str_replace CHR ''.'' '','' (str_replace CHR '','' ''X'' s))))"

section \<open>Financial calculations\<close>

text \<open>
  The body of the loop \<^verbatim>\<open>for i, upper in enumerate(INSS_LIMITS)\<close> of
  \<^verbatim>\<open>calcular_inss\<close>. The arguments are the loop index \<open>i\<close>, the limits still to
  visit, and the variables \<^verbatim>\<open>inss_total\<close> and \<^verbatim>\<open>lower\<close>. The empty list is the
  loop running out, where the function returns \<^verbatim>\<open>inss_total\<close>; the \<^verbatim>\<open>else\<close> branch
  is the \<^verbatim>\<open>return\<close> inside the loop. \<^verbatim>\<open>INSS_RATES[i]\<close> is read at an index below
  the length of \<^verbatim>\<open>INSS_LIMITS\<close>, which is the length of \<^verbatim>\<open>INSS_RATES\<close>.
\<close>

fun inss_loop :: "real \<Rightarrow> nat \<Rightarrow> real list \<Rightarrow> real \<Rightarrow> real \<Rightarrow> real" where
  "inss_loop salario_bruto i [] inss_total lower = inss_total"
| "inss_loop salario_bruto i (upper # rest) inss_total lower =
     (let rate = INSS_RATES ! i in
      if salario_bruto > upper
      then inss_loop salario_bruto (Suc i) rest (inss_total + (upper - lower) * rate) upper
      else inss_total + (salario_bruto - lower) * rate)"

definition calcular_inss :: "real \<Rightarrow> real" where
  "calcular_inss salario_bruto =
     (if salario_bruto \<le> 0 then 0.0
      else inss_loop salario_bruto 0 INSS_LIMITS 0.0 0.0)"

definition calcular_insalubridade :: "real \<Rightarrow> real \<times> real \<times> real" where
  "calcular_insalubridade percentual =
     (if percentual \<le> 0 then (0.0, 0.0, 0.0)
      else
        let insal_total = SALARIO_MINIMO * (percentual / 100.0);
            parcela_40 = insal_total * 0.40;
            parcela_60 = insal_total * 0.60
        in (insal_total, parcela_40, parcela_60))"

definition calcular_vr :: "real \<Rightarrow> int \<Rightarrow> real \<Rightarrow> real" where
  "calcular_vr valor_vr dias_vr percentual_desconto =
     (if percentual_desconto > 0 \<and> valor_vr > 0 \<and> dias_vr > 0
      then (valor_vr * of_int dias_vr) * (percentual_desconto / 100.0)
      else 0.0)"

definition calcular_vt :: "real \<Rightarrow> real \<Rightarrow> real" where
  "calcular_vt salario_bruto percentual_desconto =
     (if percentual_desconto > 0 \<and> salario_bruto > 0
      then salario_bruto * (percentual_desconto / 100.0)
      else 0.0)"

section \<open>Composition of the result text\<close>

text \<open>
  The local variables that \<^verbatim>\<open>get_resultados_string\<close> computes from its nine
  arguments before and while it writes the lines.
\<close>

record calculo =
  desconto_inss :: real
  insal_total :: real
  parcela_40 :: real
  parcela_60 :: real
  desconto_vr :: real
  desconto_vt :: real
  desconto_saude :: real
  desconto_odonto :: real
  adiantamento_40 :: real
  adiantamento_insalubridade_40 :: real
  salario_liquido :: real
  total_descontos :: real

definition calculos ::
  "real \<Rightarrow> real \<Rightarrow> real \<Rightarrow> real \<Rightarrow> int \<Rightarrow> real \<Rightarrow> real \<Rightarrow> real \<Rightarrow> real \<Rightarrow> calculo" where
  "calculos salario_bruto adiantamento_salario insalubridade_percentual valor_vr dias_vr
     desconto_vr_percentual desconto_vt_percentual desconto_saude_percentual
     desconto_odonto_percentual =
     (let d_inss = calcular_inss salario_bruto;
          (i_total, p_40, p_60) = calcular_insalubridade insalubridade_percentual;
          d_vr = calcular_vr valor_vr dias_vr desconto_vr_percentual;
          d_vt = calcular_vt salario_bruto desconto_vt_percentual;
          d_saude = calcular_vt salario_bruto desconto_saude_percentual;
          d_odonto = calcular_vt salario_bruto desconto_odonto_percentual
      in \<lparr>desconto_inss = d_inss,
          insal_total = i_total,
          parcela_40 = p_40,
          parcela_60 = p_60,
          desconto_vr = d_vr,
          desconto_vt = d_vt,
          desconto_saude = d_saude,
          desconto_odonto = d_odonto,
          adiantamento_40 = (adiantamento_salario / 100.0) * salario_bruto,
          adiantamento_insalubridade_40 = p_40,
          salario_liquido =
            salario_bruto - d_inss - d_vr - d_vt - d_saude - d_odonto + i_total,
          total_descontos = d_inss + d_vr + d_vt + d_saude + d_odonto\<rparr>)"

text \<open>
  \<^verbatim>\<open>percentual_inss = (desconto_inss / salario_bruto * 100.0) if salario_bruto > 0 else 0.0\<close>
\<close>

definition percentual_inss :: "real \<Rightarrow> real \<Rightarrow> error + real" where
  "percentual_inss d_inss salario_bruto =
     (if salario_bruto > 0
      then (case truediv d_inss salario_bruto of Inl e \<Rightarrow> Inl e | Inr q \<Rightarrow> Inr (q * 100.0))
      else Inr 0.0)"

definition nl :: string where "nl = [CHR 0x0A]"
definition a_acute :: string where "a_acute = [CHR 0xC3, CHR 0xA1]"
definition a_tilde :: string where "a_tilde = [CHR 0xC3, CHR 0xA3]"
definition i_acute :: string where "i_acute = [CHR 0xC3, CHR 0xAD]"
definition o_acute :: string where "o_acute = [CHR 0xC3, CHR 0xB3]"
definition u_acute :: string where "u_acute = [CHR 0xC3, CHR 0xBA]"

definition obs :: string where
  "obs = '' Reais. | Obs.: A empresa pode (ou n'' @ a_tilde @ ''o) arredondar.''"

text \<open>The two lines that show the advance on the salary.\<close>

definition linha_adiantamento :: "(real \<Rightarrow> string) \<Rightarrow> (real \<Rightarrow> string) \<Rightarrow> real \<Rightarrow> real \<Rightarrow> string" where
  "linha_adiantamento fv float_str percentual valor =
     nl @ ''- Valor Adiantamento Sal'' @ a_acute @ ''rio ('' @ float_str percentual @
     ''%): R$ '' @ fv valor"

definition linha_adiantamentos :: "(real \<Rightarrow> string) \<Rightarrow> (real \<Rightarrow> string) \<Rightarrow> real \<Rightarrow> real \<Rightarrow> string" where
  "linha_adiantamentos fv float_str percentual soma =
     nl @ ''- Valor Adiantamento Insalubridade (40%) + Valor Adiantamento Sal'' @ a_acute @
     ''rio ('' @ float_str percentual @ ''%): R$ '' @ fv soma @ obs"

text \<open>The two forms of a discount line: the amount, or the notice that there is none.\<close>

definition linha_desconto_vr :: "(real \<Rightarrow> string) \<Rightarrow> (real \<Rightarrow> string) \<Rightarrow> real \<Rightarrow> real \<Rightarrow> string" where
  "linha_desconto_vr fv float_str percentual desconto =
     nl @ ''- Valor Desconto VR ('' @ float_str percentual @ ''%): R$ '' @ fv desconto"

definition sem_desconto_vr :: string where
  "sem_desconto_vr = nl @ ''- Sem desconto de VR.''"

definition linha_desconto_vt :: "(real \<Rightarrow> string) \<Rightarrow> (real \<Rightarrow> string) \<Rightarrow> real \<Rightarrow> real \<Rightarrow> string" where
  "linha_desconto_vt fv float_str percentual desconto =
     nl @ ''- Valor Desconto VT ('' @ float_str percentual @ ''%): R$ '' @ fv desconto"

definition sem_desconto_vt :: string where
  "sem_desconto_vt = nl @ ''- Sem desconto de VT.''"

definition linha_desconto_saude :: "(real \<Rightarrow> string) \<Rightarrow> (real \<Rightarrow> string) \<Rightarrow> real \<Rightarrow> real \<Rightarrow> string" where
  "linha_desconto_saude fv float_str percentual desconto =
     nl @ ''- Valor Desconto Plano de Sa'' @ u_acute @ ''de ('' @ float_str percentual @
     ''%): R$ '' @ fv desconto"

definition sem_desconto_saude :: string where
  "sem_desconto_saude = nl @ ''- Sem desconto de Plano de Sa'' @ u_acute @ ''de.''"

definition linha_desconto_odonto :: "(real \<Rightarrow> string) \<Rightarrow> (real \<Rightarrow> string) \<Rightarrow> real \<Rightarrow> real \<Rightarrow> string" where
  "linha_desconto_odonto fv float_str percentual desconto =
     nl @ ''- Valor Desconto Plano Odontol'' @ o_acute @ ''gico ('' @ float_str percentual @
     ''%): R$ '' @ fv desconto"

definition sem_desconto_odonto :: string where
  "sem_desconto_odonto = nl @ ''- Sem desconto de Plano Odontol'' @ o_acute @ ''gico.''"

definition linha_inss :: "(real \<Rightarrow> string) \<Rightarrow> real \<Rightarrow> real \<Rightarrow> string" where
  "linha_inss fv percentual desconto =
     nl @ ''- Valor Desconto INSS ('' @ format_2f False percentual @ ''%): R$ '' @ fv desconto"

definition linha_total_descontos :: "(real \<Rightarrow> string) \<Rightarrow> real \<Rightarrow> string" where
  "linha_total_descontos fv descontos =
     nl @ ''- Valor Total Desconto (INSS + VR + VT + Sa'' @ u_acute @ ''de + Odontol'' @ o_acute @
     ''gico): R$ '' @ fv descontos"

definition linha_salario_liquido :: "(real \<Rightarrow> string) \<Rightarrow> real \<Rightarrow> string" where
  "linha_salario_liquido fv liquido =
     nl @ ''- Sal'' @ a_acute @ ''rio L'' @ i_acute @ ''quido: R$ '' @ fv liquido @ obs"

text \<open>
  The list \<^verbatim>\<open>linhas\<close> at the end of \<^verbatim>\<open>get_resultados_string\<close>. \<open>float_str\<close> is the
  text that an f-string gives a float without a format specification
  (\<^verbatim>\<open>{adiantamento_salario}\<close>), a function of the language that the model takes as
  a parameter.
\<close>

definition linhas ::
  "(real \<Rightarrow> error + string) \<Rightarrow> (real \<Rightarrow> string) \<Rightarrow>
   real \<Rightarrow> real \<Rightarrow> real \<Rightarrow> real \<Rightarrow> int \<Rightarrow> real \<Rightarrow> real \<Rightarrow> real \<Rightarrow> real \<Rightarrow> error + string list" where
  "linhas currency float_str salario_bruto adiantamento_salario insalubridade_percentual
     valor_vr dias_vr desconto_vr_percentual desconto_vt_percentual
     desconto_saude_percentual desconto_odonto_percentual =
     (let c = calculos salario_bruto adiantamento_salario insalubridade_percentual valor_vr
                dias_vr desconto_vr_percentual desconto_vt_percentual
                desconto_saude_percentual desconto_odonto_percentual;
          fv = formatar_valor currency
      in case percentual_inss (desconto_inss c) salario_bruto of
           Inl e \<Rightarrow> Inl e
         | Inr p_inss \<Rightarrow> Inr
            [''- Sal'' @ a_acute @ ''rio Bruto: R$ '' @ fv salario_bruto,
             linha_adiantamento fv float_str adiantamento_salario (adiantamento_40 c),
             nl @ ''- Valor VR ('' @ str_int dias_vr @ '' Dias): R$ '' @
               fv (valor_vr * of_int dias_vr),
             nl @ ''- Valor Adiantamento Insalubridade: R$ '' @
               fv (adiantamento_insalubridade_40 c) @ obs,
             nl @ ''- Valor Final Insalubridade: R$ '' @ fv (parcela_60 c),
             linha_adiantamentos fv float_str adiantamento_salario
               (adiantamento_40 c + adiantamento_insalubridade_40 c),
             SEPARATOR,
             linha_inss fv p_inss (desconto_inss c),
             (if desconto_vr_percentual > 0
              then linha_desconto_vr fv float_str desconto_vr_percentual (desconto_vr c)
              else sem_desconto_vr),
             (if desconto_vt_percentual > 0
              then linha_desconto_vt fv float_str desconto_vt_percentual (desconto_vt c)
              else sem_desconto_vt),
             (if desconto_saude_percentual > 0
              then linha_desconto_saude fv float_str desconto_saude_percentual (desconto_saude c)
              else sem_desconto_saude),
             (if desconto_odonto_percentual > 0
              then linha_desconto_odonto fv float_str desconto_odonto_percentual (desconto_odonto c)
              else sem_desconto_odonto),
             linha_total_descontos fv (total_descontos c),
             SEPARATOR,
             nl @ ''- Total de Proventos: R$ '' @ fv (salario_bruto + insal_total c) @ obs,
             nl @ ''- Total Insalubridade: R$ '' @ fv (insal_total c) @ obs,
             SEPARATOR,
             linha_salario_liquido fv (salario_liquido c),
             SEPARATOR])"

definition get_resultados_string ::
  "(real \<Rightarrow> error + string) \<Rightarrow> (real \<Rightarrow> string) \<Rightarrow>
   real \<Rightarrow> real \<Rightarrow> real \<Rightarrow> real \<Rightarrow> int \<Rightarrow> real \<Rightarrow> real \<Rightarrow> real \<Rightarrow> real \<Rightarrow> error + string" where
  "get_resultados_string currency float_str salario_bruto adiantamento_salario
     insalubridade_percentual valor_vr dias_vr desconto_vr_percentual desconto_vt_percentual
     desconto_saude_percentual desconto_odonto_percentual =
     (case linhas currency float_str salario_bruto adiantamento_salario
             insalubridade_percentual valor_vr dias_vr desconto_vr_percentual
             desconto_vt_percentual desconto_saude_percentual desconto_odonto_percentual of
        Inl e \<Rightarrow> Inl e
      | Inr ls \<Rightarrow> Inr (join nl ls))"

section \<open>Validation of the number of days\<close>

text \<open>
  \<^verbatim>\<open>calendar.monthrange(ano, mes)[1]\<close> of Python's standard library:
  \<^verbatim>\<open>mdays[month] + (month == February and isleap(year))\<close>, after
  \<^verbatim>\<open>IllegalMonthError\<close> for a month outside 1 to 12. The first component of the
  pair, the weekday of the first day of the month, is not used by the program, and
  computing it does not raise: for a year outside 1 to 9999 the library takes the
  weekday of the year \<^verbatim>\<open>2000 + year % 400\<close>.
\<close>

definition isleap :: "int \<Rightarrow> bool" where
  "isleap year = (year mod 4 = 0 \<and> (year mod 100 \<noteq> 0 \<or> year mod 400 = 0))"

definition mdays :: "int list" where
  "mdays = [0, 31, 28, 31, 30, 31, 30, 31, 31, 30, 31, 30, 31]"

definition monthrange_ndays :: "int \<Rightarrow> int \<Rightarrow> error + int" where
  "monthrange_ndays year month =
     (if \<not> (1 \<le> month \<and> month \<le> 12) then Inl IllegalMonthError
      else Inr (mdays ! nat month + (if month = 2 \<and> isleap year then 1 else 0)))"

definition verificar_dias_validos :: "int \<Rightarrow> int \<Rightarrow> int \<Rightarrow> error + bool" where
  "verificar_dias_validos ano mes dias_trab_mes =
     (if mes < 1 \<or> mes > 12 then Inr False
      else case monthrange_ndays ano mes of
             Inl e \<Rightarrow> Inl e
           | Inr dias_no_mes \<Rightarrow> Inr (0 \<le> dias_trab_mes \<and> dias_trab_mes \<le> dias_no_mes))"

text \<open>
  The calendar as the specification words it: a year is a leap year when it is
  divisible by 4, except a century year that is not divisible by 400.
\<close>

definition gregorian_leap_year :: "int \<Rightarrow> bool" where
  "gregorian_leap_year y = (4 dvd y \<and> \<not> (100 dvd y \<and> \<not> 400 dvd y))"

definition days_in_month :: "int \<Rightarrow> int \<Rightarrow> int" where
  "days_in_month y m =
     (if m = 2 then (if gregorian_leap_year y then 29 else 28)
      else if m = 4 \<or> m = 6 \<or> m = 9 \<or> m = 11 then 30
      else 31)"

section \<open>The insalubridade calculation in binary64 arithmetic\<close>

text \<open>
  A Python \<^verbatim>\<open>float\<close> is an IEEE 754 binary64 number: a significand of 53 bits and
  a binary exponent. Every arithmetic operation, and every decimal literal, gives the
  exact value rounded to the nearest such number, a tie going to the even significand.
  \<open>round64\<close> is this rounding on the normal range (magnitudes from \<open>2\<^sup>-\<^sup>1\<^sup>0\<^sup>2\<^sup>2\<close> up to
  the overflow threshold), where all the values of this section lie.
\<close>

function bit_length :: "int \<Rightarrow> int" where
  "bit_length n = (if n \<le> 0 then 0 else 1 + bit_length (n div 2))"
  by pat_completeness auto
termination
  by (relation "measure nat") auto

declare bit_length.simps [simp del]

text \<open>The binary exponent \<open>e\<close> of \<open>x > 0\<close>: \<open>2\<^sup>e \<le> x < 2\<^sup>e\<^sup>+\<^sup>1\<close>.\<close>

definition ilog2 :: "real \<Rightarrow> int" where
  "ilog2 x = (if 1 \<le> x then bit_length \<lfloor>x\<rfloor> - 1 else - bit_length (\<lceil>1 / x\<rceil> - 1))"

definition pow2 :: "int \<Rightarrow> real" where
  "pow2 e = (if 0 \<le> e then 2 ^ nat e else 1 / 2 ^ nat (- e))"

definition round64 :: "real \<Rightarrow> real" where
  "round64 x =
     (if x = 0 then 0
      else let ulp = pow2 (ilog2 \<bar>x\<bar> - 52);
               m = round_half_even (\<bar>x\<bar> / ulp)
           in sgn x * of_int m * ulp)"

text \<open>
  \<^verbatim>\<open>calcular_insalubridade\<close> with every literal and every operation rounded by
  \<open>rnd\<close>, in the order in which Python evaluates them. With no rounding this is
  \<open>calcular_insalubridade\<close> above; with \<open>round64\<close> it is the function on the floats of
  the program.
\<close>

definition calcular_insalubridade_rnd :: "(real \<Rightarrow> real) \<Rightarrow> real \<Rightarrow> real \<times> real \<times> real" where
  "calcular_insalubridade_rnd rnd percentual =
     (if percentual \<le> 0 then (0.0, 0.0, 0.0)
      else
        let insal_total = rnd (rnd SALARIO_MINIMO * rnd (percentual / rnd 100.0));
            parcela_40 = rnd (insal_total * rnd 0.40);
            parcela_60 = rnd (insal_total * rnd 0.60)
        in (insal_total, parcela_40, parcela_60))"

section \<open>The INSS bracket calculation\<close>

subsection \<open>The table\<close>

lemma INSS_RATES_nonneg: "0 \<le> INSS_RATES ! k" if "k < 4"
proof -
  from that have "k = 0 \<or> k = 1 \<or> k = 2 \<or> k = 3" by arith
  then show ?thesis by (auto simp: INSS_RATES_def)
qed

lemma INSS_tables_length: "length INSS_RATES = length INSS_LIMITS"
  by (simp add: INSS_RATES_def INSS_LIMITS_def)

lemma INSS_LIMITS_sorted: "sorted (0 # INSS_LIMITS)"
  by (simp add: INSS_LIMITS_def)

lemma INSS_table_rates: "\<forall>k < length INSS_LIMITS. 0 \<le> INSS_RATES ! (0 + k)"
  by (simp add: INSS_LIMITS_def INSS_RATES_nonneg)

text \<open>The calculation on the table of the program, bracket by bracket.\<close>

lemma calcular_inss_piecewise:
  "calcular_inss g =
     (if g \<le> 0 then 0
      else if g \<le> 1518.00 then g * 0.075
      else if g \<le> 2793.88 then 113.85 + (g - 1518.00) * 0.09
      else if g \<le> 4190.83 then 228.6792 + (g - 2793.88) * 0.12
      else if g \<le> 8157.41 then 396.3132 + (g - 4190.83) * 0.14
      else 951.6344)"
  by (simp add: calcular_inss_def INSS_LIMITS_def INSS_RATES_def)

subsection \<open>The loop\<close>

text \<open>
  With limits in increasing order above \<open>lower\<close> and rates that are not negative, the
  loop never returns less than the total it starts from.
\<close>

lemma inss_loop_ge_total:
  "\<lbrakk>lower \<le> g; sorted (lower # ls); \<forall>k < length ls. 0 \<le> INSS_RATES ! (i + k)\<rbrakk>
     \<Longrightarrow> t \<le> inss_loop g i ls t lower"
proof (induction ls arbitrary: i t lower)
  case Nil
  then show ?case by simp
next
  case (Cons upper rest)
  from Cons.prems(3) have r0: "0 \<le> INSS_RATES ! i" by force
  from Cons.prems(3) have rs: "\<forall>k < length rest. 0 \<le> INSS_RATES ! (Suc i + k)" by force
  from Cons.prems(2) have lu: "lower \<le> upper" and srt: "sorted (upper # rest)" by auto
  show ?case
  proof (cases "g > upper")
    case True
    then have "t + (upper - lower) * INSS_RATES ! i
                 \<le> inss_loop g (Suc i) rest (t + (upper - lower) * INSS_RATES ! i) upper"
      using Cons.IH [of upper "Suc i"] srt rs by simp
    moreover have "0 \<le> (upper - lower) * INSS_RATES ! i" using lu r0 by simp
    ultimately show ?thesis using True by simp
  next
    case False
    have "0 \<le> (g - lower) * INSS_RATES ! i" using Cons.prems(1) r0 by simp
    then show ?thesis using False by simp
  qed
qed

text \<open>
  The loop is monotone in the salary. The two salaries leave the loop in the same
  bracket, or the smaller one leaves it first: it then pays at most the whole bracket,
  which the larger one has paid before it goes on.
\<close>

lemma inss_loop_mono:
  "\<lbrakk>lower \<le> g1; g1 \<le> g2; sorted (lower # ls); \<forall>k < length ls. 0 \<le> INSS_RATES ! (i + k)\<rbrakk>
     \<Longrightarrow> inss_loop g1 i ls t lower \<le> inss_loop g2 i ls t lower"
proof (induction ls arbitrary: i t lower)
  case Nil
  then show ?case by simp
next
  case (Cons upper rest)
  from Cons.prems(4) have r0: "0 \<le> INSS_RATES ! i" by force
  from Cons.prems(4) have rs: "\<forall>k < length rest. 0 \<le> INSS_RATES ! (Suc i + k)" by force
  from Cons.prems(3) have lu: "lower \<le> upper" and srt: "sorted (upper # rest)" by auto
  let ?t' = "t + (upper - lower) * INSS_RATES ! i"
  consider (both) "g1 > upper" | (cross) "g1 \<le> upper" "g2 > upper" | (none) "g2 \<le> upper"
    using Cons.prems(2) by linarith
  then show ?case
  proof cases
    case both
    then have "g2 > upper" using Cons.prems(2) by simp
    with both show ?thesis
      using Cons.IH [of upper "Suc i" ?t'] Cons.prems(2) srt rs by simp
  next
    case cross
    have "(g1 - lower) * INSS_RATES ! i \<le> (upper - lower) * INSS_RATES ! i"
      using cross(1) r0 by (simp add: mult_right_mono)
    moreover have "?t' \<le> inss_loop g2 (Suc i) rest ?t' upper"
      using inss_loop_ge_total [of upper g2 rest "Suc i" ?t'] cross(2) srt rs by simp
    ultimately show ?thesis using cross by simp
  next
    case none
    then have "g1 \<le> upper" using Cons.prems(2) by simp
    moreover have "(g1 - lower) * INSS_RATES ! i \<le> (g2 - lower) * INSS_RATES ! i"
      using Cons.prems(2) r0 by (simp add: mult_right_mono)
    ultimately show ?thesis using none by simp
  qed
qed

subsection \<open>Claims on \<^verbatim>\<open>calcular_inss\<close>\<close>

text \<open>
  Claim C2. The INSS calculation is monotone: for all gross salaries \<open>g1 \<le> g2\<close>,
  \<^verbatim>\<open>calcular_inss(g1) <= calcular_inss(g2)\<close>.
\<close>

theorem C2_calcular_inss_monotone:
  "g1 \<le> g2 \<Longrightarrow> calcular_inss g1 \<le> calcular_inss g2"
proof (cases "g1 \<le> 0")
  case True
  show ?thesis
  proof (cases "g2 \<le> 0")
    case True
    with \<open>g1 \<le> 0\<close> show ?thesis by (simp add: calcular_inss_def)
  next
    case False
    then have "0 \<le> inss_loop g2 0 INSS_LIMITS 0 0"
      using inss_loop_ge_total [of 0 g2 INSS_LIMITS 0 0] INSS_LIMITS_sorted INSS_table_rates
      by simp
    with True False show ?thesis by (simp add: calcular_inss_def)
  qed
next
  case False
  assume le: "g1 \<le> g2"
  with False have "\<not> g2 \<le> 0" by simp
  moreover have "inss_loop g1 0 INSS_LIMITS 0 0 \<le> inss_loop g2 0 INSS_LIMITS 0 0"
    using inss_loop_mono [of 0 g1 g2 INSS_LIMITS 0 0] False le INSS_LIMITS_sorted INSS_table_rates
    by simp
  ultimately show ?thesis using False by (simp add: calcular_inss_def)
qed

theorem C2_monotone_witness:
  "(1000 :: real) \<le> 3000 \<and> calcular_inss 1000 \<le> calcular_inss 3000 \<and>
   (3000 :: real) \<le> 9000 \<and> calcular_inss 3000 \<le> calcular_inss 9000"
  using C2_calcular_inss_monotone [of 1000 3000] C2_calcular_inss_monotone [of 3000 9000]
  by simp

text \<open>
  Claim C3. For every gross salary \<open>g \<le> 0\<close>, among them 0 and -5, the INSS is 0; at
  the ceiling of the first bracket, \<^verbatim>\<open>calcular_inss(1518.00)\<close> is
  \<open>1518.00 \<times> 0.075 = 113.85\<close>.
\<close>

theorem C3_calcular_inss_points:
  "(g \<le> 0 \<longrightarrow> calcular_inss g = 0) \<and>
   calcular_inss 0 = 0 \<and> calcular_inss (- 5) = 0 \<and>
   calcular_inss 1518.00 = 1518.00 * 0.075 \<and> calcular_inss 1518.00 = 113.85"
  by (simp add: calcular_inss_piecewise)

theorem C3_points_witness:
  "(- 5 :: real) \<le> 0 \<and> calcular_inss (- 5) = 0"
  using C3_calcular_inss_points [of "- 5"] by simp

text \<open>
  Claim C4. For every gross salary above the last limit 8157.41 the INSS is one and
  the same amount, the sum over the four brackets of
  \<open>(upper\<^sub>i - lower\<^sub>i) \<times> rate\<^sub>i\<close>: what the salary has above the last limit pays
  nothing. The amount is the INSS of 8157.41 itself, 951.6344.
\<close>

theorem C4_calcular_inss_ceiling:
  "8157.41 < g \<longrightarrow>
     calcular_inss g =
       sum_list (map (\<lambda>(lower, upper, rate). (upper - lower) * rate)
                  (zip (0 # INSS_LIMITS) (zip INSS_LIMITS INSS_RATES))) \<and>
     calcular_inss g = calcular_inss 8157.41 \<and>
     calcular_inss g = 951.6344"
  by (simp add: calcular_inss_piecewise INSS_LIMITS_def INSS_RATES_def)

theorem C4_ceiling_witness:
  "(8157.41 :: real) < 10000 \<and> calcular_inss 10000 = calcular_inss 8157.41 \<and>
   calcular_inss 10000 = 951.6344"
  using C4_calcular_inss_ceiling [of 10000] by simp

section \<open>The insalubridade calculation\<close>

text \<open>
  Claim C5, in exact arithmetic. For every percentage \<open>p \<le> 0\<close> the result is
  \<open>(0, 0, 0)\<close>; for every \<open>p > 0\<close> the total is \<open>1518.00 \<times> p / 100\<close>, the two parts are
  0.40 and 0.60 of the total, and the two parts add up to the total.
\<close>

theorem C5_calcular_insalubridade_exact:
  "(p \<le> 0 \<longrightarrow> calcular_insalubridade p = (0, 0, 0)) \<and>
   (0 < p \<longrightarrow>
      (case calcular_insalubridade p of (insal, part40, part60) \<Rightarrow>
         insal = 1518.00 * p / 100 \<and> part40 = insal * 0.40 \<and> part60 = insal * 0.60 \<and>
         part40 + part60 = insal))"
  by (simp add: calcular_insalubridade_def SALARIO_MINIMO_def Let_def)

theorem C5_exact_witness:
  "calcular_insalubridade 0 = (0, 0, 0) \<and>
   calcular_insalubridade 20 = (303.60, 121.44, 182.16)"
  using C5_calcular_insalubridade_exact [of 0] C5_calcular_insalubridade_exact [of 20]
  by (auto split: prod.splits)

subsection \<open>The sum of the two parts in binary64 arithmetic\<close>

text \<open>The number of binary digits of a positive integer.\<close>

lemma bit_length_pos: "0 < n \<Longrightarrow> 1 \<le> bit_length n"
proof (induction n rule: bit_length.induct)
  case (1 n)
  show ?case
  proof (cases "n div 2 \<le> 0")
    case True
    with 1(2) show ?thesis
      by (simp add: bit_length.simps [of n] bit_length.simps [of 0])
  next
    case False
    with 1 have "1 \<le> bit_length (n div 2)" by simp
    with 1(2) show ?thesis by (simp add: bit_length.simps [of n])
  qed
qed

lemma bit_length_bounds:
  "0 < n \<Longrightarrow> 2 ^ nat (bit_length n - 1) \<le> n \<and> n < 2 ^ nat (bit_length n)"
proof (induction n rule: bit_length.induct)
  case (1 n)
  have bl: "bit_length n = 1 + bit_length (n div 2)"
    using 1(2) by (simp add: bit_length.simps [of n])
  show ?case
  proof (cases "n div 2 \<le> 0")
    case True
    with 1(2) have "n = 1" by linarith
    then show ?thesis by (simp add: bit_length.simps [of 1] bit_length.simps [of 0])
  next
    case False
    let ?k = "bit_length (n div 2)"
    from False 1 have ih: "2 ^ nat (?k - 1) \<le> n div 2" "n div 2 < 2 ^ nat ?k" by simp_all
    from False have k: "1 \<le> ?k" by (simp add: bit_length_pos)
    then have e: "nat ?k = Suc (nat (?k - 1))" by linarith
    have "(2::int) ^ nat ?k = 2 * 2 ^ nat (?k - 1)" by (subst e) simp
    also have "\<dots> \<le> 2 * (n div 2)" using ih(1) by simp
    also have "\<dots> \<le> n" by simp
    finally have lo: "2 ^ nat (bit_length n - 1) \<le> n" by (simp add: bl)
    have "n < 2 * (n div 2) + 2" by linarith
    also have "\<dots> \<le> 2 * 2 ^ nat ?k" using ih(2) by linarith
    also have "\<dots> = 2 ^ nat (1 + ?k)" using k by (simp add: nat_add_distrib)
    finally have hi: "n < 2 ^ nat (bit_length n)" by (simp add: bl)
    from lo hi show ?thesis ..
  qed
qed

lemma pow2_powi: "pow2 e = 2 powi e"
  by (simp add: pow2_def power_int_def inverse_eq_divide power_one_over)

lemma pow2_pos: "0 < pow2 e"
  by (simp add: pow2_powi)

lemma pow2_Suc: "pow2 (e + 1) = 2 * pow2 e"
  by (simp add: pow2_powi power_int_add)

text \<open>\<open>ilog2\<close> is the binary exponent.\<close>

lemma ilog2_bounds:
  assumes "0 < x"
  shows "pow2 (ilog2 x) \<le> x \<and> x < pow2 (ilog2 x + 1)"
proof (cases "1 \<le> x")
  case True
  let ?n = "\<lfloor>x\<rfloor>"
  from True have n: "0 < ?n" by simp
  let ?k = "bit_length ?n"
  from bit_length_bounds [OF n] have b: "2 ^ nat (?k - 1) \<le> ?n" "?n < 2 ^ nat ?k" by simp_all
  from n have k: "1 \<le> ?k" by (rule bit_length_pos)
  have e: "ilog2 x = ?k - 1" using True by (simp add: ilog2_def)
  have "pow2 (?k - 1) = of_int (2 ^ nat (?k - 1))" using k by (simp add: pow2_def)
  also have "\<dots> \<le> of_int ?n" using b(1) by (simp only: of_int_le_iff)
  also have "\<dots> \<le> x" by simp
  finally have lo: "pow2 (ilog2 x) \<le> x" by (simp add: e)
  have "?n + 1 \<le> 2 ^ nat ?k" using b(2) by simp
  then have "real_of_int (?n + 1) \<le> real_of_int (2 ^ nat ?k)" by (simp only: of_int_le_iff)
  moreover have "x < real_of_int (?n + 1)" by linarith
  ultimately have "x < real_of_int (2 ^ nat ?k)" by linarith
  moreover have "pow2 ?k = of_int (2 ^ nat ?k)" using k by (simp add: pow2_def)
  ultimately have hi: "x < pow2 (ilog2 x + 1)" by (simp add: e)
  from lo hi show ?thesis ..
next
  case False
  let ?m = "\<lceil>1 / x\<rceil>"
  from False assms have x1: "1 < 1 / x" by simp
  then have m2: "2 \<le> ?m" by (simp add: le_ceiling_iff)
  then have m1: "0 < ?m - 1" by simp
  let ?k = "bit_length (?m - 1)"
  from bit_length_bounds [OF m1] have b: "2 ^ nat (?k - 1) \<le> ?m - 1" "?m - 1 < 2 ^ nat ?k"
    by simp_all
  from m1 have k: "1 \<le> ?k" by (rule bit_length_pos)
  have e: "ilog2 x = - ?k" using False by (simp add: ilog2_def)
  have p1: "pow2 (- ?k) = 1 / of_int (2 ^ nat ?k)" using k by (simp add: pow2_def)
  have p2: "pow2 (- ?k + 1) = 1 / of_int (2 ^ nat (?k - 1))"
  proof (cases "?k = 1")
    case True
    then show ?thesis by (simp add: pow2_def)
  next
    case False
    with k have "- ?k + 1 < 0" "nat (- (- ?k + 1)) = nat (?k - 1)" by simp_all
    then show ?thesis by (simp add: pow2_def)
  qed
  have "?m \<le> 2 ^ nat ?k" using b(2) by simp
  then have "real_of_int ?m \<le> real_of_int (2 ^ nat ?k)" by (simp only: of_int_le_iff)
  moreover have "1 / x \<le> real_of_int ?m" by simp
  ultimately have "1 / x \<le> real_of_int (2 ^ nat ?k)" by linarith
  then have lo: "pow2 (ilog2 x) \<le> x"
    unfolding e p1 using assms by (simp add: field_simps)
  have "real_of_int (2 ^ nat (?k - 1)) \<le> real_of_int (?m - 1)"
    using b(1) by (simp only: of_int_le_iff)
  moreover have "real_of_int (?m - 1) < 1 / x" by linarith
  ultimately have "real_of_int (2 ^ nat (?k - 1)) < 1 / x" by linarith
  then have hi: "x < pow2 (ilog2 x + 1)"
    unfolding e p2 using assms by (simp add: field_simps)
  from lo hi show ?thesis ..
qed

text \<open>Rounding to the nearest integer moves a number by at most a half, and to an even
  integer when it moves it by exactly a half.\<close>

lemma round_half_even_error: "\<bar>of_int (round_half_even x) - x\<bar> \<le> 1 / 2"
  unfolding round_half_even_def Let_def by (auto; linarith)

lemma round_half_even_tie:
  "\<bar>of_int (round_half_even x) - x\<bar> = 1 / 2 \<Longrightarrow> even (round_half_even x)"
  unfolding round_half_even_def Let_def by (auto split: if_splits; linarith)

lemma round_half_even_floor:
  "\<lfloor>x\<rfloor> \<le> round_half_even x \<and> round_half_even x \<le> \<lfloor>x\<rfloor> + 1"
  unfolding round_half_even_def Let_def by auto

text \<open>
  \<open>round64 x\<close> is a number with a significand of 53 bits, at most half a unit in the
  last place away from \<open>x\<close>.
\<close>

lemma round64_nearest:
  assumes "x \<noteq> 0"
  shows "\<exists>m. round64 x = sgn x * of_int m * pow2 (ilog2 \<bar>x\<bar> - 52) \<and>
             2 ^ 52 \<le> m \<and> m \<le> 2 ^ 53 \<and>
             \<bar>round64 x - x\<bar> \<le> pow2 (ilog2 \<bar>x\<bar> - 52) / 2"
proof -
  let ?a = "\<bar>x\<bar>"
  let ?e = "ilog2 ?a"
  let ?u = "pow2 (?e - 52)"
  let ?q = "?a / ?u"
  let ?m = "round_half_even ?q"
  from assms have a: "0 < ?a" by simp
  have u: "0 < ?u" by (rule pow2_pos)
  have pe: "pow2 ?e = 2 ^ 52 * ?u"
    by (simp add: pow2_powi power_int_diff)
  have pe1: "pow2 (?e + 1) = 2 ^ 53 * ?u"
    by (simp add: pow2_Suc pe)
  from ilog2_bounds [OF a] have "2 ^ 52 * ?u \<le> ?a" "?a < 2 ^ 53 * ?u"
    by (simp_all only: pe pe1)
  then have q: "2 ^ 52 \<le> ?q" "?q < 2 ^ 53"
    using u by (simp_all add: field_simps)
  have "(2 ^ 52 :: int) \<le> \<lfloor>?q\<rfloor>" using q(1) by (simp add: le_floor_iff)
  then have lo: "2 ^ 52 \<le> ?m" using round_half_even_floor [of ?q] by linarith
  have "\<lfloor>?q\<rfloor> < (2 ^ 53 :: int)" using q(2) by (simp add: floor_less_iff)
  then have hi: "?m \<le> 2 ^ 53" using round_half_even_floor [of ?q] by linarith
  have r: "round64 x = sgn x * of_int ?m * ?u"
    using assms by (simp add: round64_def Let_def)
  have sx: "sgn x * ?a = x" by (simp add: sgn_real_def)
  have "round64 x - x = sgn x * (of_int ?m * ?u) - sgn x * ?a"
    unfolding r sx by (simp add: mult.assoc)
  then have "round64 x - x = sgn x * (of_int ?m * ?u - ?a)"
    by (simp only: right_diff_distrib)
  also have "of_int ?m * ?u - ?a = (of_int ?m - ?q) * ?u"
    using u by (simp add: field_simps)
  finally have "\<bar>round64 x - x\<bar> = \<bar>of_int ?m - ?q\<bar> * ?u"
    using assms u by (simp add: abs_mult abs_sgn_eq)
  also have "\<dots> \<le> 1 / 2 * ?u"
    using round_half_even_error [of ?q] u by (intro mult_right_mono) simp_all
  finally have err: "\<bar>round64 x - x\<bar> \<le> ?u / 2" by simp
  from r lo hi err show ?thesis by blast
qed

text \<open>Literals of the source and the percentage 29 divided by 100, as binary64 numbers.\<close>

lemma round64_literals:
  "round64 100.0 = 100" "round64 SALARIO_MINIMO = 1518"
  "round64 0.40 = 7205759403792794 / 2 ^ 54" "round64 0.60 = 5404319552844595 / 2 ^ 53"
  by code_simp+

lemma round64_tenth: "round64 (1 / 10) = 3602879701896397 / 2 ^ 55"
  by code_simp

lemma b64_percentual: "round64 (29 / round64 100.0) = 5224175567749775 / 2 ^ 54"
  by code_simp

lemma b64_insal_total:
  "round64 (round64 SALARIO_MINIMO * (5224175567749775 / 2 ^ 54)) = 7744432140472811 / 2 ^ 44"
  by code_simp

lemma b64_parcela_40:
  "round64 (7744432140472811 / 2 ^ 44 * round64 0.40) = 6195545712378249 / 2 ^ 45"
  by code_simp

lemma b64_parcela_60:
  "round64 (7744432140472811 / 2 ^ 44 * round64 0.60) = 4646659284283686 / 2 ^ 44"
  by code_simp

lemma b64_soma:
  "round64 (6195545712378249 / 2 ^ 45 + 4646659284283686 / 2 ^ 44) = 7744432140472810 / 2 ^ 44"
  by code_simp

lemma calcular_insalubridade_rnd_exact:
  "calcular_insalubridade_rnd (\<lambda>x. x) p = calcular_insalubridade p"
  by (simp add: calcular_insalubridade_rnd_def calcular_insalubridade_def SALARIO_MINIMO_def)

lemma calcular_insalubridade_round64_29:
  "calcular_insalubridade_rnd round64 29 =
     (7744432140472811 / 2 ^ 44, 6195545712378249 / 2 ^ 45, 4646659284283686 / 2 ^ 44)"
proof -
  have "\<not> (29 :: real) \<le> 0" by simp
  then show ?thesis
    unfolding calcular_insalubridade_rnd_def Let_def
    by (simp only: if_False b64_percentual b64_insal_total b64_parcela_40 b64_parcela_60)
qed

text \<open>
  Claim C5 as it is stated, that the two parts add up to the total exactly, fails for
  the floats of the program at the percentage 29: the total is
  \<open>7744432140472811 / 2\<^sup>4\<^sup>4\<close> (Python prints 440.21999999999997), and the sum of the
  two parts is \<open>7744432140472810 / 2\<^sup>4\<^sup>4\<close> (440.2199999999999), whether the sum is
  taken with the rounding of the float addition or exactly.
\<close>

theorem C5_binary64_counterexample:
  "calcular_insalubridade_rnd round64 29 =
     (7744432140472811 / 2 ^ 44, 6195545712378249 / 2 ^ 45, 4646659284283686 / 2 ^ 44) \<and>
   round64 (6195545712378249 / 2 ^ 45 + 4646659284283686 / 2 ^ 44)
     \<noteq> 7744432140472811 / 2 ^ 44 \<and>
   (6195545712378249 / 2 ^ 45 + 4646659284283686 / 2 ^ 44 :: real)
     \<noteq> 7744432140472811 / 2 ^ 44"
proof -
  have "(7744432140472810 / 2 ^ 44 :: real) \<noteq> 7744432140472811 / 2 ^ 44" by simp
  moreover
  have "(6195545712378249 / 2 ^ 45 + 4646659284283686 / 2 ^ 44 :: real)
          \<noteq> 7744432140472811 / 2 ^ 44"
    by simp
  ultimately show ?thesis by (simp only: calcular_insalubridade_round64_29 b64_soma simp_thms)
qed

section \<open>The discount of the meal voucher\<close>

text \<open>
  Claim C6. \<^verbatim>\<open>calcular_vr(unit_value, paid_days, discount_percentage)\<close> is
  \<open>(unit_value \<times> paid_days) \<times> discount_percentage / 100\<close> when the three arguments are
  above zero, and 0 when one of them is zero or negative.
\<close>

theorem C6_calcular_vr_gating:
  "(0 < p \<and> 0 < v \<and> 0 < d \<longrightarrow> calcular_vr v d p = (v * of_int d) * p / 100) \<and>
   (p \<le> 0 \<or> v \<le> 0 \<or> d \<le> 0 \<longrightarrow> calcular_vr v d p = 0)"
  by (auto simp: calcular_vr_def)

theorem C6_gating_witness:
  "calcular_vr 20 22 50 = 220 \<and> calcular_vr 20 0 50 = 0 \<and> calcular_vr 0 22 50 = 0 \<and>
   calcular_vr 20 22 0 = 0"
  using C6_calcular_vr_gating [of 50 20 22] C6_calcular_vr_gating [of 50 20 0]
    C6_calcular_vr_gating [of 50 0 22] C6_calcular_vr_gating [of 0 20 22]
  by simp

section \<open>Formatting and parsing\<close>

subsection \<open>Digits\<close>

text \<open>Decimal digits written by \<open>str_nat\<close> and read back by \<open>int_of_digits\<close>.\<close>

lemma digit_cases:
  assumes "0 \<le> d" "d < (10::int)"
  shows "d = 0 \<or> d = 1 \<or> d = 2 \<or> d = 3 \<or> d = 4 \<or> d = 5 \<or> d = 6 \<or> d = 7 \<or> d = 8 \<or> d = 9"
  using assms by arith

lemma is_digit_digit_char: "0 \<le> d \<Longrightarrow> d < 10 \<Longrightarrow> is_digit (digit_char d)"
  using digit_cases [of d] by (auto simp: is_digit_def digit_char_def)

lemma digit_val_digit_char: "0 \<le> d \<Longrightarrow> d < 10 \<Longrightarrow> digit_val (digit_char d) = d"
  using digit_cases [of d] by (auto simp: digit_val_def digit_char_def)

lemma is_digit_not_special:
  "is_digit c \<Longrightarrow> c \<noteq> CHR '','' \<and> c \<noteq> CHR ''.'' \<and> c \<noteq> CHR ''X'' \<and> c \<noteq> CHR ''-'' \<and> c \<noteq> CHR ''+'' \<and> \<not> isspace c"
  by (auto simp: is_digit_def isspace_def)

lemma str_nat_digits: "0 \<le> n \<Longrightarrow> list_all is_digit (str_nat n)"
proof (induction n rule: str_nat.induct)
  case (1 n)
  show ?case
  proof (cases "n < 10")
    case True
    with 1 show ?thesis by (simp add: str_nat.simps [of n] is_digit_digit_char)
  next
    case False
    then have "0 \<le> n div 10" by simp
    with 1 False have "list_all is_digit (str_nat (n div 10))" by simp
    moreover have "is_digit (digit_char (n mod 10))" by (simp add: is_digit_digit_char)
    ultimately show ?thesis using False by (simp add: str_nat.simps [of n])
  qed
qed

lemma str_nat_not_Nil: "str_nat n \<noteq> []"
  by (simp add: str_nat.simps [of n])

lemma int_of_digits_snoc: "int_of_digits (s @ [c]) = 10 * int_of_digits s + digit_val c"
  by (simp add: int_of_digits_def)

lemma int_of_digits_str_nat: "0 \<le> n \<Longrightarrow> int_of_digits (str_nat n) = n"
proof (induction n rule: str_nat.induct)
  case (1 n)
  show ?case
  proof (cases "n < 10")
    case True
    with 1 show ?thesis
      by (simp add: str_nat.simps [of n] int_of_digits_def digit_val_digit_char)
  next
    case False
    then have "0 \<le> n div 10" by simp
    with 1 False have "int_of_digits (str_nat (n div 10)) = n div 10" by simp
    then show ?thesis using False
      by (simp add: str_nat.simps [of n] int_of_digits_snoc digit_val_digit_char)
  qed
qed

subsection \<open>Replacement of characters\<close>

lemma str_replace_Nil [simp]: "str_replace a b [] = []"
  by (simp add: str_replace_def)

lemma str_replace_Cons [simp]:
  "str_replace a b (c # s) = (if c = a then b else [c]) @ str_replace a b s"
  by (simp add: str_replace_def)

lemma str_replace_append [simp]:
  "str_replace a b (s @ t) = str_replace a b s @ str_replace a b t"
  by (simp add: str_replace_def)

lemma str_replace_absent: "a \<notin> set s \<Longrightarrow> str_replace a b s = s"
  by (induction s) auto

lemma normalizar_Nil: "normalizar [] = []"
  by (simp add: normalizar_def)

lemma normalizar_append: "normalizar (s @ t) = normalizar s @ normalizar t"
  by (simp add: normalizar_def)

lemma normalizar_digits: "list_all is_digit s \<Longrightarrow> normalizar s = s"
proof -
  assume d: "list_all is_digit s"
  then have "CHR '','' \<notin> set s" "CHR ''.'' \<notin> set s" "CHR ''X'' \<notin> set s"
    using is_digit_not_special by (auto simp: list_all_iff)
  then show ?thesis by (simp add: normalizar_def str_replace_absent)
qed

lemma normalizar_comma: "normalizar (CHR '','' # t) = normalizar t"
  by (simp add: normalizar_def)

lemma normalizar_point: "normalizar (CHR ''.'' # t) = CHR ''.'' # normalizar t"
  by (simp add: normalizar_def)

lemma normalizar_minus: "normalizar (CHR ''-'' # t) = CHR ''-'' # normalizar t"
  by (simp add: normalizar_def)

lemma normalizar_group3: "list_all is_digit s \<Longrightarrow> normalizar (group3 s) = s"
proof (induction s rule: group3.induct)
  case (1 s)
  show ?case
  proof (cases "length s \<le> 3")
    case True
    with 1 show ?thesis by (simp add: group3.simps [of s] normalizar_digits)
  next
    case False
    let ?a = "take (length s - 3) s" and ?b = "drop (length s - 3) s"
    from 1(2) have da: "list_all is_digit ?a" and db: "list_all is_digit ?b"
      by (auto simp: list_all_iff dest: in_set_takeD in_set_dropD)
    from 1(1) False da have "normalizar (group3 ?a) = ?a" by simp
    then have "normalizar (group3 s) = ?a @ ?b"
      using False db
      by (simp add: group3.simps [of s] normalizar_append normalizar_comma normalizar_digits)
    then show ?thesis by simp
  qed
qed

subsection \<open>Parsing a numeral\<close>

lemma strip_id:
  assumes "s \<noteq> []" "\<not> isspace (hd s)" "\<not> isspace (last s)"
  shows "strip s = s"
proof -
  from assms(1,2) have a: "dropWhile isspace s = s" by (cases s) auto
  from assms(1,3) have "dropWhile isspace (rev s) = rev s"
    by (cases "rev s") (auto simp: last_rev [symmetric] simp del: last_rev)
  with a show ?thesis by (simp add: strip_def)
qed

lemma round_half_even_of_int: "round_half_even (of_int n) = n"
  by (simp add: round_half_even_def)

lemma takeWhile_point:
  "list_all is_digit ip \<Longrightarrow> takeWhile (\<lambda>c. c \<noteq> CHR ''.'') (ip @ CHR ''.'' # r) = ip"
  using is_digit_not_special by (induction ip) auto

lemma int_of_digits_two:
  "\<lbrakk>0 \<le> d1; d1 < 10; 0 \<le> d2; d2 < 10\<rbrakk>
     \<Longrightarrow> int_of_digits [digit_char d1, digit_char d2] = 10 * d1 + d2"
  by (simp add: int_of_digits_def digit_val_digit_char)

lemma py_float_unsigned:
  assumes "strip text = s" "s \<noteq> []" "hd s \<noteq> CHR ''-''" "hd s \<noteq> CHR ''+''"
    and "takeWhile (\<lambda>c. c \<noteq> CHR ''.'') s = ip" "drop (Suc (length ip)) s = fp"
    and "list_all is_digit (ip @ fp)" "ip \<noteq> []"
  shows "py_float text =
           Inr (of_int (int_of_digits ip) + of_int (int_of_digits fp) / 10 ^ length fp)"
  using assms by (simp add: py_float_def Let_def)

lemma py_float_negative:
  assumes "strip text = CHR ''-'' # s"
    and "takeWhile (\<lambda>c. c \<noteq> CHR ''.'') s = ip" "drop (Suc (length ip)) s = fp"
    and "list_all is_digit (ip @ fp)" "ip \<noteq> []"
  shows "py_float text =
           Inr (- (of_int (int_of_digits ip) + of_int (int_of_digits fp) / 10 ^ length fp))"
  using assms by (simp add: py_float_def Let_def)

text \<open>The text of a decimal numeral with two decimals parses to its value.\<close>

lemma py_float_decimal:
  assumes ip: "list_all is_digit ip" "ip \<noteq> []"
    and d: "0 \<le> d1" "d1 < 10" "0 \<le> d2" "d2 < 10"
  shows "py_float (ip @ [CHR ''.'', digit_char d1, digit_char d2]) =
           Inr (of_int (int_of_digits ip) + of_int (10 * d1 + d2) / 100)"
    and "py_float (CHR ''-'' # ip @ [CHR ''.'', digit_char d1, digit_char d2]) =
           Inr (- (of_int (int_of_digits ip) + of_int (10 * d1 + d2) / 100))"
proof -
  let ?fp = "[digit_char d1, digit_char d2]"
  let ?body = "ip @ [CHR ''.'', digit_char d1, digit_char d2]"
  from ip have hd_ip: "is_digit (hd ip)" by (cases ip) auto
  have d2: "is_digit (digit_char d2)" and d1: "is_digit (digit_char d1)"
    using d by (simp_all add: is_digit_digit_char)
  have hd_body: "hd ?body = hd ip" using ip(2) by simp
  have last_body: "last ?body = digit_char d2" by simp
  have tw: "takeWhile (\<lambda>c. c \<noteq> CHR ''.'') ?body = ip"
    using takeWhile_point [OF ip(1)] by simp
  have dr: "drop (Suc (length ip)) ?body = ?fp" by simp
  have all: "list_all is_digit (ip @ ?fp)" using ip(1) d1 d2 by simp
  have val: "int_of_digits ?fp = 10 * d1 + d2" using d by (rule int_of_digits_two)
  have sp: "\<not> isspace (hd ip)" "\<not> isspace (digit_char d2)"
    using hd_ip d2 is_digit_not_special by auto
  have "?body \<noteq> []" by simp
  moreover have "\<not> isspace (hd ?body)" using sp(1) ip(2) by simp
  moreover have "\<not> isspace (last ?body)" using sp(2) by simp
  ultimately have s1: "strip ?body = ?body" by (rule strip_id)
  have nosign: "hd ?body \<noteq> CHR ''-''" "hd ?body \<noteq> CHR ''+''"
    using hd_ip is_digit_not_special unfolding hd_body by auto
  have "?body \<noteq> []" by simp
  from py_float_unsigned [OF s1 this nosign tw dr all ip(2)]
  show "py_float ?body = Inr (of_int (int_of_digits ip) + of_int (10 * d1 + d2) / 100)"
    unfolding val by simp
  have "\<not> isspace (last (CHR ''-'' # ?body))" "\<not> isspace (hd (CHR ''-'' # ?body))"
    using sp(2) by (simp_all add: isspace_def)
  then have s2: "strip (CHR ''-'' # ?body) = CHR ''-'' # ?body"
    by (intro strip_id) simp_all
  from py_float_negative [OF s2 tw dr all ip(2)]
  show "py_float (CHR ''-'' # ?body) = Inr (- (of_int (int_of_digits ip) + of_int (10 * d1 + d2) / 100))"
    unfolding val by simp
qed


subsection \<open>Formatting an amount of whole cents and parsing it back\<close>

lemma two_digits: "10 * (a mod 100 div 10) + a mod 10 = a mod (100::int)"
proof -
  have "a mod 100 mod 10 = a mod 10" by (simp add: mod_mod_cancel)
  then show ?thesis using div_mult_mod_eq [of "a mod 100" 10] by simp
qed

lemma div_mod_100: "real_of_int (a div 100) + real_of_int (a mod 100) / 100 = real_of_int a / 100"
proof -
  have "a = 100 * (a div 100) + a mod 100" by simp
  then have "real_of_int a = real_of_int (100 * (a div 100) + a mod 100)" by simp
  then have "real_of_int a = 100 * real_of_int (a div 100) + real_of_int (a mod 100)"
    by (simp only: of_int_add of_int_mult of_int_numeral)
  then show ?thesis by simp
qed

lemma format_2f_cents:
  "format_2f True (of_int n / 100) =
     (if n < 0 then ''-'' else []) @ group3 (str_nat (\<bar>n\<bar> div 100)) @
     [CHR ''.'', digit_char (\<bar>n\<bar> mod 100 div 10), digit_char (\<bar>n\<bar> mod 10)]"
proof -
  have "\<bar>real_of_int n / 100\<bar> * 100 = of_int \<bar>n\<bar>" by simp
  then have "round_half_even (\<bar>real_of_int n / 100\<bar> * 100) = \<bar>n\<bar>"
    by (simp only: round_half_even_of_int)
  moreover have "(real_of_int n / 100 < 0) = (n < 0)" by simp
  ultimately show ?thesis unfolding format_2f_def Let_def by simp
qed

lemma normalizar_format_2f:
  "normalizar (format_2f True (of_int n / 100)) =
     (if n < 0 then ''-'' else []) @ str_nat (\<bar>n\<bar> div 100) @
     [CHR ''.'', digit_char (\<bar>n\<bar> mod 100 div 10), digit_char (\<bar>n\<bar> mod 10)]"
proof -
  let ?ip = "str_nat (\<bar>n\<bar> div 100)"
  have dig: "list_all is_digit ?ip" by (simp add: str_nat_digits)
  have d12: "list_all is_digit [digit_char (\<bar>n\<bar> mod 100 div 10), digit_char (\<bar>n\<bar> mod 10)]"
    by (simp add: is_digit_digit_char)
  show ?thesis
    unfolding format_2f_cents
    by (simp add: normalizar_append normalizar_minus normalizar_point normalizar_group3 [OF dig]
        normalizar_digits [OF d12] normalizar_Nil)
qed

lemma limpar_formato_fallback:
  "limpar_formato (formatar_valor (\<lambda>v. Inl e) (of_int n / 100)) = Inr (of_int n / 100)"
proof -
  let ?x = "real_of_int n / 100"
  let ?a = "\<bar>n\<bar>"
  let ?ip = "str_nat (?a div 100)"
  let ?d1 = "?a mod 100 div 10" and ?d2 = "?a mod 10"
  let ?F = "formatar_valor (\<lambda>v. Inl e) ?x"
  have norm: "str_replace CHR '','' ''.'' (str_replace CHR ''.'' [] ?F) = normalizar (format_2f True ?x)"
    by (simp add: formatar_valor_def normalizar_def)
  have "normalizar (format_2f True ?x) \<noteq> []" by (simp add: normalizar_format_2f)
  with norm have ne: "?F \<noteq> []" by auto
  have dig: "list_all is_digit ?ip" "?ip \<noteq> []" by (simp_all add: str_nat_digits str_nat_not_Nil)
  have d: "0 \<le> ?d1" "?d1 < 10" "0 \<le> ?d2" "?d2 < 10" by simp_all
  have val: "real_of_int (int_of_digits ?ip) + real_of_int (10 * ?d1 + ?d2) / 100 = real_of_int ?a / 100"
    by (simp only: int_of_digits_str_nat two_digits div_mod_100 abs_ge_zero pos_imp_zdiv_nonneg_iff)
  have "limpar_formato ?F = py_float (normalizar (format_2f True ?x))"
    using ne norm by (simp add: limpar_formato_def)
  also have "\<dots> = Inr ?x"
  proof (cases "n < 0")
    case True
    then have "normalizar (format_2f True ?x) = CHR ''-'' # ?ip @ [CHR ''.'', digit_char ?d1, digit_char ?d2]"
      by (simp add: normalizar_format_2f)
    moreover from True have "- (real_of_int ?a / 100) = ?x" by simp
    ultimately show ?thesis
      using py_float_decimal(2) [OF dig d] by (simp only: val)
  next
    case False
    then have "normalizar (format_2f True ?x) = ?ip @ [CHR ''.'', digit_char ?d1, digit_char ?d2]"
      by (simp add: normalizar_format_2f)
    moreover from False have "real_of_int ?a / 100 = ?x" by simp
    ultimately show ?thesis
      using py_float_decimal(1) [OF dig d] by (simp only: val)
  qed
  finally show ?thesis .
qed

subsection \<open>The texts of the three locales\<close>

lemma formatar_valor_fallback: "formatar_valor (\<lambda>v. Inl e) x = formatar_valor currency_C x"
  by (simp add: formatar_valor_def currency_C_def)

lemma group3_hd:
  "s \<noteq> [] \<Longrightarrow> group3 s \<noteq> [] \<and> hd (group3 s) = hd s"
proof (induction s rule: group3.induct)
  case (1 s)
  show ?case
  proof (cases "length s \<le> 3")
    case True
    with 1(2) show ?thesis by (simp add: group3.simps [of s])
  next
    case False
    let ?a = "take (length s - 3) s"
    from False have a: "?a \<noteq> []" by auto
    with 1(1) False have "group3 ?a \<noteq> [] \<and> hd (group3 ?a) = hd ?a" by simp
    moreover have "hd ?a = hd s" using a by (cases s) auto
    ultimately show ?thesis using False by (simp add: group3.simps [of s])
  qed
qed

lemma round_half_even_nonneg: "0 \<le> x \<Longrightarrow> 0 \<le> round_half_even x"
  using round_half_even_floor [of x] by (simp add: order_trans [of 0 "\<lfloor>x\<rfloor>"])

text \<open>The text of the fallback has no white space at its ends.\<close>

lemma strip_brazilian_shape:
  assumes "sg = [] \<or> sg = ''-''" "is_digit h" "is_digit d"
  shows "strip (str_replace CHR ''X'' ''.'' (str_replace CHR ''.'' '',''
                  (str_replace CHR '','' ''X'' (sg @ h # g @ [d])))) =
         str_replace CHR ''X'' ''.'' (str_replace CHR ''.'' '',''
                  (str_replace CHR '','' ''X'' (sg @ h # g @ [d])))"
proof -
  let ?R = "\<lambda>s. str_replace CHR ''X'' ''.'' (str_replace CHR ''.'' '','' (str_replace CHR '','' ''X'' s))"
  have ns: "h \<noteq> CHR '',''" "h \<noteq> CHR ''.''" "h \<noteq> CHR ''X''"
    "d \<noteq> CHR '',''" "d \<noteq> CHR ''.''" "d \<noteq> CHR ''X''"
    using assms(2,3) is_digit_not_special by auto
  have sp: "\<not> isspace h" "\<not> isspace d" "\<not> isspace CHR ''-''"
    using assms(2,3) is_digit_not_special by (auto simp: isspace_def)
  from assms(1) show ?thesis
  proof
    assume "sg = []"
    then have t: "?R (sg @ h # g @ [d]) = h # ?R g @ [d]" by (simp add: ns)
    show ?thesis unfolding t using sp by (intro strip_id) simp_all
  next
    assume "sg = ''-''"
    then have t: "?R (sg @ h # g @ [d]) = CHR ''-'' # h # ?R g @ [d]" by (simp add: ns)
    show ?thesis unfolding t using sp by (intro strip_id) simp_all
  qed
qed

lemma brazilian_text_strip:
  "strip (formatar_valor currency_C x) = formatar_valor currency_C x"
proof -
  let ?c = "round_half_even (\<bar>x\<bar> * 100)"
  let ?ip = "str_nat (?c div 100)"
  have c: "0 \<le> ?c" by (simp add: round_half_even_nonneg)
  then have c100: "0 \<le> ?c div 100" by simp
  have dig: "list_all is_digit ?ip" "?ip \<noteq> []"
    using c100 by (simp_all add: str_nat_digits str_nat_not_Nil)
  from group3_hd [OF dig(2)] obtain g where g: "group3 ?ip = hd ?ip # g"
    by (cases "group3 ?ip") auto
  from dig have h: "is_digit (hd ?ip)" by (cases ?ip) auto
  have d2: "is_digit (digit_char (?c mod 10))" by (simp add: is_digit_digit_char)
  have sg: "(if x < 0 then ''-'' else []) = [] \<or> (if x < 0 then ''-'' else []) = ''-''"
    by simp
  have f: "format_2f True x =
             (if x < 0 then ''-'' else []) @ hd ?ip #
             (g @ [CHR ''.'', digit_char (?c mod 100 div 10)]) @ [digit_char (?c mod 10)]"
    unfolding format_2f_def Let_def by (simp only: g if_True) simp
  show ?thesis
    unfolding formatar_valor_def currency_C_def sum.case f
    by (rule strip_brazilian_shape [OF sg h d2])
qed

lemma formatar_valor_pt_BR: "formatar_valor currency_pt_BR x = formatar_valor currency_C x"
proof -
  have "formatar_valor currency_pt_BR x = strip (formatar_valor currency_C x)"
    by (simp add: formatar_valor_def currency_pt_BR_def currency_C_def)
  then show ?thesis by (simp only: brazilian_text_strip)
qed

text \<open>
  With the fallback of the source, or in the Brazilian locale, every amount of whole
  cents is read back as it was written.
\<close>

lemma round_trip_C_locale:
  "limpar_formato (formatar_valor currency_C (of_int n / 100)) = Inr (of_int n / 100)"
  using limpar_formato_fallback [of ValueError n] by (simp add: formatar_valor_fallback)

lemma round_trip_pt_BR:
  "limpar_formato (formatar_valor currency_pt_BR (of_int n / 100)) = Inr (of_int n / 100)"
  by (simp only: formatar_valor_pt_BR round_trip_C_locale)

text \<open>The texts of the four amounts of the specification.\<close>

lemma formatar_valor_examples:
  "formatar_valor currency_C 0 = ''0,00''"
  "formatar_valor currency_C 1518.00 = ''1.518,00''"
  "formatar_valor currency_C 8157.41 = ''8.157,41''"
  "formatar_valor currency_C 1000000.55 = ''1.000.000,55''"
  by code_simp+

subsection \<open>Claim on the round trip\<close>

text \<open>
  Claim C7 says that \<^verbatim>\<open>limpar_formato(formatar_valor(x))\<close> is \<open>x\<close> for every amount
  \<open>x\<close> with two decimals, \<^verbatim>\<open>formatar_valor\<close> writing the thousands in groups and a
  comma before the decimals. The program does not do so when it runs in the English
  locale, which it takes when the Brazilian one is not installed and the English one
  is the default of the environment:
  \<^verbatim>\<open>formatar_valor(1518.00)\<close> is then \<^verbatim>\<open>1,518.00\<close>, against the docstring of the
  function (\<^verbatim>\<open>ex: '1.518,00'\<close>) and its own fallback, and \<^verbatim>\<open>limpar_formato\<close> reads this
  text as 1.518.
\<close>

theorem C7_round_trip_fails_in_english_locale:
  "formatar_valor currency_en_US 1518.00 = ''1,518.00'' \<and>
   limpar_formato (formatar_valor currency_en_US 1518.00) = Inr 1.518 \<and>
   limpar_formato (formatar_valor currency_en_US 1518.00) \<noteq> Inr 1518.00"
proof -
  have a: "formatar_valor currency_en_US 1518.00 = ''1,518.00''" by code_simp
  have b: "limpar_formato ''1,518.00'' = Inr 1.518" by code_simp
  show ?thesis unfolding a b by simp
qed

section \<open>The validation of the number of days\<close>

lemma isleap_gregorian: "isleap y = gregorian_leap_year y"
  by (auto simp: isleap_def gregorian_leap_year_def dvd_eq_mod_eq_0)

lemma month_cases:
  assumes "1 \<le> m" "m \<le> (12::int)"
  shows "m = 1 \<or> m = 2 \<or> m = 3 \<or> m = 4 \<or> m = 5 \<or> m = 6 \<or>
         m = 7 \<or> m = 8 \<or> m = 9 \<or> m = 10 \<or> m = 11 \<or> m = 12"
  using assms by arith

lemma monthrange_ndays_days_in_month:
  assumes "1 \<le> m" "m \<le> 12"
  shows "monthrange_ndays y m = Inr (days_in_month y m)"
  using month_cases [OF assms]
  by (auto simp: monthrange_ndays_def days_in_month_def mdays_def isleap_gregorian)

text \<open>
  Claim C8. For every year, month and number of worked days,
  \<^verbatim>\<open>verificar_dias_validos\<close> returns false when the month is outside 1 to 12, and
  otherwise true exactly when the number of days is from 0 up to the days of the month
  in the Gregorian calendar; it is true for (2024, 2, 29) and false for (2023, 2, 29)
  and for (2025, 13, 1).
\<close>

theorem C8_verificar_dias_validos:
  "(mes < 1 \<or> 12 < mes \<longrightarrow> verificar_dias_validos ano mes dias = Inr False) \<and>
   (1 \<le> mes \<and> mes \<le> 12 \<longrightarrow>
      verificar_dias_validos ano mes dias = Inr (0 \<le> dias \<and> dias \<le> days_in_month ano mes)) \<and>
   verificar_dias_validos 2024 2 29 = Inr True \<and>
   verificar_dias_validos 2023 2 29 = Inr False \<and>
   verificar_dias_validos 2025 13 1 = Inr False"
proof -
  have a: "mes < 1 \<or> 12 < mes \<longrightarrow> verificar_dias_validos ano mes dias = Inr False"
    by (simp add: verificar_dias_validos_def)
  have b: "verificar_dias_validos y m d = Inr (0 \<le> d \<and> d \<le> days_in_month y m)"
    if "1 \<le> m" "m \<le> 12" for y m d
    using that by (simp add: verificar_dias_validos_def monthrange_ndays_days_in_month)
  have "verificar_dias_validos 2024 2 29 = Inr True" "verificar_dias_validos 2023 2 29 = Inr False"
    by (simp_all add: b days_in_month_def gregorian_leap_year_def)
  moreover have "verificar_dias_validos 2025 13 1 = Inr False"
    by (simp add: verificar_dias_validos_def)
  ultimately show ?thesis using a b by blast
qed

theorem C8_dias_validos_witness:
  "verificar_dias_validos 1900 2 29 = Inr False \<and> verificar_dias_validos 2000 2 29 = Inr True \<and>
   verificar_dias_validos 2025 4 30 = Inr True \<and> verificar_dias_validos 2025 4 31 = Inr False \<and>
   verificar_dias_validos 2025 0 1 = Inr False \<and> verificar_dias_validos 2025 1 (- 1) = Inr False"
  using C8_verificar_dias_validos [of 2 1900 29] C8_verificar_dias_validos [of 2 2000 29]
    C8_verificar_dias_validos [of 4 2025 30] C8_verificar_dias_validos [of 4 2025 31]
    C8_verificar_dias_validos [of 0 2025 1] C8_verificar_dias_validos [of 1 2025 "- 1"]
  by (simp add: days_in_month_def gregorian_leap_year_def)

section \<open>The result text\<close>

text \<open>
  The rate of the INSS line. The division is guarded by \<^verbatim>\<open>salario_bruto > 0\<close>, so it
  never raises; below zero the INSS is 0 and so is the rate.
\<close>

lemma percentual_inss_total:
  "percentual_inss (calcular_inss sb) sb =
     Inr (if sb = 0 then 0 else calcular_inss sb / sb * 100)"
  by (simp add: percentual_inss_def truediv_def calcular_inss_def)

lemma desconto_inss_calculos [simp]:
  "desconto_inss (calculos sb a ip vv dv pvr pvt ps po) = calcular_inss sb"
  by (simp add: calculos_def Let_def split: prod.splits)

lemma desconto_vr_calculos [simp]:
  "desconto_vr (calculos sb a ip vv dv pvr pvt ps po) = calcular_vr vv dv pvr"
  by (simp add: calculos_def Let_def split: prod.splits)

lemma desconto_vt_calculos [simp]:
  "desconto_vt (calculos sb a ip vv dv pvr pvt ps po) = calcular_vt sb pvt"
  by (simp add: calculos_def Let_def split: prod.splits)

lemma desconto_saude_calculos [simp]:
  "desconto_saude (calculos sb a ip vv dv pvr pvt ps po) = calcular_vt sb ps"
  by (simp add: calculos_def Let_def split: prod.splits)

lemma desconto_odonto_calculos [simp]:
  "desconto_odonto (calculos sb a ip vv dv pvr pvt ps po) = calcular_vt sb po"
  by (simp add: calculos_def Let_def split: prod.splits)

text \<open>A notice is never the text of a line with an amount.\<close>

lemma notice_not_amount:
  "sem_desconto_vr \<noteq> linha_desconto_vr fv fs p d"
  "sem_desconto_vt \<noteq> linha_desconto_vt fv fs p d"
  "sem_desconto_saude \<noteq> linha_desconto_saude fv fs p d"
  "sem_desconto_odonto \<noteq> linha_desconto_odonto fv fs p d"
  by (simp_all add: sem_desconto_vr_def linha_desconto_vr_def sem_desconto_vt_def
      linha_desconto_vt_def sem_desconto_saude_def linha_desconto_saude_def
      sem_desconto_odonto_def linha_desconto_odonto_def nl_def)

text \<open>
  Claim C9. The function always returns its text, the 19 lines joined by line feeds,
  and never raises on the division. Line 7 is the INSS line, with the rate
  \<open>inss / gross \<times> 100\<close>, and 0 when the gross salary is 0. Lines 8 to 11 are those of the
  discounts of VR, VT, health plan and dental plan: the notice \<^verbatim>\<open>- Sem desconto de\<close> ...
  when the percentage is 0, the line \<^verbatim>\<open>- Valor Desconto\<close> ... with the percentage and the
  amount when it is above 0.
\<close>

theorem C9_linhas_gating:
  "case linhas cur fs sb a ip vv dv pvr pvt ps po of
     Inl e \<Rightarrow> False
   | Inr ls \<Rightarrow>
       get_resultados_string cur fs sb a ip vv dv pvr pvt ps po =
         Inr (hd ls @ concat (map (\<lambda>l. CHR 0x0A # l) (tl ls))) \<and>
       length ls = 19 \<and>
       ls ! 7 = CHR 0x0A # ''- Valor Desconto INSS ('' @
                  format_2f False (if sb = 0 then 0 else calcular_inss sb / sb * 100) @
                  ''%): R$ '' @ formatar_valor cur (calcular_inss sb) \<and>
       (pvr = 0 \<longrightarrow> ls ! 8 = CHR 0x0A # ''- Sem desconto de VR.'') \<and>
       (0 < pvr \<longrightarrow>
          ls ! 8 = CHR 0x0A # ''- Valor Desconto VR ('' @ fs pvr @ ''%): R$ '' @
                     formatar_valor cur (calcular_vr vv dv pvr)) \<and>
       (pvt = 0 \<longrightarrow> ls ! 9 = CHR 0x0A # ''- Sem desconto de VT.'') \<and>
       (0 < pvt \<longrightarrow>
          ls ! 9 = CHR 0x0A # ''- Valor Desconto VT ('' @ fs pvt @ ''%): R$ '' @
                     formatar_valor cur (calcular_vt sb pvt)) \<and>
       (ps = 0 \<longrightarrow>
          ls ! 10 = CHR 0x0A # ''- Sem desconto de Plano de Sa'' @ [CHR 0xC3, CHR 0xBA] @ ''de.'') \<and>
       (0 < ps \<longrightarrow>
          ls ! 10 = CHR 0x0A # ''- Valor Desconto Plano de Sa'' @ [CHR 0xC3, CHR 0xBA] @ ''de ('' @
                      fs ps @ ''%): R$ '' @ formatar_valor cur (calcular_vt sb ps)) \<and>
       (po = 0 \<longrightarrow>
          ls ! 11 = CHR 0x0A # ''- Sem desconto de Plano Odontol'' @ [CHR 0xC3, CHR 0xB3] @
                      ''gico.'') \<and>
       (0 < po \<longrightarrow>
          ls ! 11 = CHR 0x0A # ''- Valor Desconto Plano Odontol'' @ [CHR 0xC3, CHR 0xB3] @
                      ''gico ('' @ fs po @ ''%): R$ '' @ formatar_valor cur (calcular_vt sb po))"
  by (simp add: get_resultados_string_def linhas_def Let_def percentual_inss_total join_def
      nl_def u_acute_def o_acute_def linha_inss_def
      sem_desconto_vr_def linha_desconto_vr_def sem_desconto_vt_def linha_desconto_vt_def
      sem_desconto_saude_def linha_desconto_saude_def sem_desconto_odonto_def
      linha_desconto_odonto_def)

theorem C9_gating_witness:
  "(case linhas currency_C (\<lambda>v. if v = 6 then ''6.0'' else ''0.0'')
           3000.00 0 20 20.00 22 0 6 0 0 of
      Inl e \<Rightarrow> False
    | Inr ls \<Rightarrow>
        ls ! 7 = CHR 0x0A # ''- Valor Desconto INSS (8.45%): R$ 253,41'' \<and>
        ls ! 8 = CHR 0x0A # ''- Sem desconto de VR.'' \<and>
        ls ! 9 = CHR 0x0A # ''- Valor Desconto VT (6.0%): R$ 180,00'' \<and>
        ls ! 10 = CHR 0x0A # ''- Sem desconto de Plano de Sa'' @ [CHR 0xC3, CHR 0xBA] @ ''de.'' \<and>
        ls ! 11 = CHR 0x0A # ''- Sem desconto de Plano Odontol'' @ [CHR 0xC3, CHR 0xB3] @
                    ''gico.'') \<and>
   (case linhas currency_C (\<lambda>v. ''0.0'') 0 0 0 0 0 0 0 0 0 of
      Inl e \<Rightarrow> False
    | Inr ls \<Rightarrow>
        ls ! 7 = CHR 0x0A # ''- Valor Desconto INSS (0.00%): R$ 0,00'' \<and>
        ls ! 9 = CHR 0x0A # ''- Sem desconto de VT.'')"
proof -
  let ?fs = "\<lambda>v::real. if v = 6 then ''6.0'' else ''0.0''"
  have inss: "calcular_inss 3000 = 253.4136" "calcular_inss 0 = 0"
    by (simp_all add: calcular_inss_piecewise)
  have vt: "calcular_vt 3000 6 = 180" by (simp add: calcular_vt_def)
  have f: "format_2f False (253.4136 / 3000 * 100) = ''8.45''"
    "formatar_valor currency_C 253.4136 = ''253,41''"
    "formatar_valor currency_C 180 = ''180,00''"
    "format_2f False 0 = ''0.00''"
    "formatar_valor currency_C 0 = ''0,00''"
    by code_simp+
  show ?thesis
    using C9_linhas_gating [of currency_C ?fs 3000 0 20 20 22 0 6 0 0]
      C9_linhas_gating [of currency_C "\<lambda>v. ''0.0''" 0 0 0 0 0 0 0 0 0]
    by (auto split: sum.splits simp: inss vt f [simplified])
qed

text \<open>
  Claim C10. The net salary does not depend on the percentage of the advance: two
  calls that differ in this percentage only compute the same total of discounts and the
  same net salary. The amount of the advance, \<open>gross \<times> percentage / 100\<close>, enters neither:
  the net salary is the gross salary minus the discounts plus the insalubridade, and of
  the lines of the text only line 1 and line 5, which show the advance, change.
\<close>

theorem C10_adiantamento_frame:
  "total_descontos (calculos sb a1 ip vv dv pvr pvt ps po) =
     total_descontos (calculos sb a2 ip vv dv pvr pvt ps po) \<and>
   salario_liquido (calculos sb a1 ip vv dv pvr pvt ps po) =
     salario_liquido (calculos sb a2 ip vv dv pvr pvt ps po) \<and>
   adiantamento_40 (calculos sb a1 ip vv dv pvr pvt ps po) = sb * a1 / 100 \<and>
   salario_liquido (calculos sb a1 ip vv dv pvr pvt ps po) =
     sb - total_descontos (calculos sb a1 ip vv dv pvr pvt ps po)
        + insal_total (calculos sb a1 ip vv dv pvr pvt ps po) \<and>
   linhas cur fs sb a2 ip vv dv pvr pvt ps po =
     map_sum id
       (\<lambda>ls. ls[1 := linha_adiantamento (formatar_valor cur) fs a2 (sb * a2 / 100),
                 5 := linha_adiantamentos (formatar_valor cur) fs a2
                        (sb * a2 / 100 + fst (snd (calcular_insalubridade ip)))])
       (linhas cur fs sb a1 ip vv dv pvr pvt ps po)"
  by (simp add: linhas_def calculos_def Let_def percentual_inss_total mult.commute
      split: prod.splits)

lemma calculos_scenario:
  "calculos 3000.00 0 20 20.00 22 0 6 0 0 =
     \<lparr>desconto_inss = 253.4136, insal_total = 303.60, parcela_40 = 121.44,
      parcela_60 = 182.16, desconto_vr = 0, desconto_vt = 180, desconto_saude = 0,
      desconto_odonto = 0, adiantamento_40 = 0, adiantamento_insalubridade_40 = 121.44,
      salario_liquido = 2870.1864, total_descontos = 433.4136\<rparr>"
  by (simp add: calculos_def calcular_inss_piecewise calcular_insalubridade_def calcular_vr_def
      calcular_vt_def SALARIO_MINIMO_def Let_def)

lemma textos_scenario:
  "formatar_valor currency_C 3000 = ''3.000,00''"
  "formatar_valor currency_C 0 = ''0,00''"
  "formatar_valor currency_C 440 = ''440,00''"
  "formatar_valor currency_C 121.44 = ''121,44''"
  "formatar_valor currency_C 182.16 = ''182,16''"
  "formatar_valor currency_C 253.4136 = ''253,41''"
  "formatar_valor currency_C 180 = ''180,00''"
  "formatar_valor currency_C 433.4136 = ''433,41''"
  "formatar_valor currency_C 3303.60 = ''3.303,60''"
  "formatar_valor currency_C 303.60 = ''303,60''"
  "formatar_valor currency_C 2870.1864 = ''2.870,19''"
  "format_2f False 8.44712 = ''8.45''"
  "str_int 22 = ''22''"
  by code_simp+

text \<open>The text depends on the locale through \<open>formatar_valor\<close> only.\<close>

lemma linhas_cong:
  "formatar_valor cur = formatar_valor cur' \<Longrightarrow>
     linhas cur fs sb a ip vv dv pvr pvt ps po = linhas cur' fs sb a ip vv dv pvr pvt ps po"
  by (simp add: linhas_def)

text \<open>
  Claim C1. For the gross salary 3000.00, no advance, insalubridade of 20 per cent, a
  voucher of 20.00 for 22 days without discount, 6 per cent of VT and no health or
  dental plan, the function computes the INSS
  \<open>1518 \<times> 0.075 + (2793.88 - 1518) \<times> 0.09 + (3000 - 2793.88) \<times> 0.12\<close>, which is 253.4136;
  the insalubridade \<open>1518 \<times> 0.20 = 303.60\<close> with the parts 121.44 and 182.16; the VT
  discount \<open>3000 \<times> 0.06 = 180.00\<close> and no other discount; and the net salary
  \<open>3000 - 253.4136 - 180.00 + 303.60 = 2870.1864\<close>. It returns the 19 lines below joined
  by line feeds, with the INSS 253,41 and the net salary 2.870,19, when the text of
  the amounts is that of the fallback of \<^verbatim>\<open>formatar_valor\<close>, and the same lines in the
  Brazilian locale.
\<close>

theorem C1_end_to_end:
  "desconto_inss (calculos 3000.00 0 20 20.00 22 0 6 0 0) =
     1518 * 0.075 + (2793.88 - 1518) * 0.09 + (3000 - 2793.88) * 0.12 \<and>
   desconto_inss (calculos 3000.00 0 20 20.00 22 0 6 0 0) = 253.4136 \<and>
   insal_total (calculos 3000.00 0 20 20.00 22 0 6 0 0) = 1518 * 0.20 \<and>
   insal_total (calculos 3000.00 0 20 20.00 22 0 6 0 0) = 303.60 \<and>
   parcela_40 (calculos 3000.00 0 20 20.00 22 0 6 0 0) = 121.44 \<and>
   parcela_60 (calculos 3000.00 0 20 20.00 22 0 6 0 0) = 182.16 \<and>
   desconto_vt (calculos 3000.00 0 20 20.00 22 0 6 0 0) = 3000 * 0.06 \<and>
   desconto_vt (calculos 3000.00 0 20 20.00 22 0 6 0 0) = 180.00 \<and>
   desconto_vr (calculos 3000.00 0 20 20.00 22 0 6 0 0) = 0 \<and>
   desconto_saude (calculos 3000.00 0 20 20.00 22 0 6 0 0) = 0 \<and>
   desconto_odonto (calculos 3000.00 0 20 20.00 22 0 6 0 0) = 0 \<and>
   salario_liquido (calculos 3000.00 0 20 20.00 22 0 6 0 0) = 3000 - 253.4136 - 180.00 + 303.60 \<and>
   salario_liquido (calculos 3000.00 0 20 20.00 22 0 6 0 0) = 2870.1864 \<and>
   \<bar>desconto_inss (calculos 3000.00 0 20 20.00 22 0 6 0 0) - 253.41\<bar> < 0.005 \<and>
   \<bar>salario_liquido (calculos 3000.00 0 20 20.00 22 0 6 0 0) - 2870.19\<bar> < 0.005 \<and>
   (case linhas (\<lambda>v. Inl e) fs 3000.00 0 20 20.00 22 0 6 0 0 of
      Inl err \<Rightarrow> False
    | Inr ls \<Rightarrow>
        get_resultados_string (\<lambda>v. Inl e) fs 3000.00 0 20 20.00 22 0 6 0 0 =
          Inr (hd ls @ concat (map (\<lambda>l. CHR 0x0A # l) (tl ls))) \<and>
        get_resultados_string currency_pt_BR fs 3000.00 0 20 20.00 22 0 6 0 0 =
          Inr (hd ls @ concat (map (\<lambda>l. CHR 0x0A # l) (tl ls))) \<and>
        ls =
       [''- Sal'' @ [CHR 0xC3, CHR 0xA1] @ ''rio Bruto: R$ 3.000,00'',
        [CHR 0x0A] @ ''- Valor Adiantamento Sal'' @ [CHR 0xC3, CHR 0xA1] @ ''rio ('' @
         fs 0 @ ''%): R$ 0,00'',
        [CHR 0x0A] @ ''- Valor VR (22 Dias): R$ 440,00'',
        [CHR 0x0A] @
         ''- Valor Adiantamento Insalubridade: R$ 121,44 Reais. | Obs.: A empresa pode (ou n'' @
         [CHR 0xC3, CHR 0xA3] @ ''o) arredondar.'',
        [CHR 0x0A] @ ''- Valor Final Insalubridade: R$ 182,16'',
        [CHR 0x0A] @
         ''- Valor Adiantamento Insalubridade (40%) + Valor Adiantamento Sal'' @
         [CHR 0xC3, CHR 0xA1] @ ''rio ('' @ fs 0 @
         ''%): R$ 121,44 Reais. | Obs.: A empresa pode (ou n'' @ [CHR 0xC3, CHR 0xA3] @
         ''o) arredondar.'',
        ''--------------------------------------------------------------------'',
        [CHR 0x0A] @ ''- Valor Desconto INSS (8.45%): R$ 253,41'',
        [CHR 0x0A] @ ''- Sem desconto de VR.'',
        [CHR 0x0A] @ ''- Valor Desconto VT ('' @ fs 6 @ ''%): R$ 180,00'',
        [CHR 0x0A] @ ''- Sem desconto de Plano de Sa'' @ [CHR 0xC3, CHR 0xBA] @ ''de.'',
        [CHR 0x0A] @ ''- Sem desconto de Plano Odontol'' @ [CHR 0xC3, CHR 0xB3] @
         ''gico.'',
        [CHR 0x0A] @ ''- Valor Total Desconto (INSS + VR + VT + Sa'' @
         [CHR 0xC3, CHR 0xBA] @ ''de + Odontol'' @ [CHR 0xC3, CHR 0xB3] @
         ''gico): R$ 433,41'',
        ''--------------------------------------------------------------------'',
        [CHR 0x0A] @
         ''- Total de Proventos: R$ 3.303,60 Reais. | Obs.: A empresa pode (ou n'' @
         [CHR 0xC3, CHR 0xA3] @ ''o) arredondar.'',
        [CHR 0x0A] @
         ''- Total Insalubridade: R$ 303,60 Reais. | Obs.: A empresa pode (ou n'' @
         [CHR 0xC3, CHR 0xA3] @ ''o) arredondar.'',
        ''--------------------------------------------------------------------'',
        [CHR 0x0A] @ ''- Sal'' @ [CHR 0xC3, CHR 0xA1] @ ''rio L'' @ [CHR 0xC3, CHR 0xAD] @
         ''quido: R$ 2.870,19 Reais. | Obs.: A empresa pode (ou n'' @ [CHR 0xC3, CHR 0xA3] @
         ''o) arredondar.'',
        ''--------------------------------------------------------------------''])"
proof -
  let ?c = "calculos 3000.00 0 20 20.00 22 0 6 0 0"
  have fv: "formatar_valor (\<lambda>v. Inl e) = formatar_valor currency_C"
    by (rule ext) (rule formatar_valor_fallback)
  have fb: "formatar_valor currency_pt_BR = formatar_valor currency_C"
    by (rule ext) (rule formatar_valor_pt_BR)
  have p: "percentual_inss 253.4136 3000 = Inr 8.44712"
    by (simp add: percentual_inss_def truediv_def)
  have ls: "linhas currency_C fs 3000.00 0 20 20.00 22 0 6 0 0 = Inr
       [''- Sal'' @ [CHR 0xC3, CHR 0xA1] @ ''rio Bruto: R$ 3.000,00'',
        [CHR 0x0A] @ ''- Valor Adiantamento Sal'' @ [CHR 0xC3, CHR 0xA1] @ ''rio ('' @
         fs 0 @ ''%): R$ 0,00'',
        [CHR 0x0A] @ ''- Valor VR (22 Dias): R$ 440,00'',
        [CHR 0x0A] @
         ''- Valor Adiantamento Insalubridade: R$ 121,44 Reais. | Obs.: A empresa pode (ou n'' @
         [CHR 0xC3, CHR 0xA3] @ ''o) arredondar.'',
        [CHR 0x0A] @ ''- Valor Final Insalubridade: R$ 182,16'',
        [CHR 0x0A] @
         ''- Valor Adiantamento Insalubridade (40%) + Valor Adiantamento Sal'' @
         [CHR 0xC3, CHR 0xA1] @ ''rio ('' @ fs 0 @
         ''%): R$ 121,44 Reais. | Obs.: A empresa pode (ou n'' @ [CHR 0xC3, CHR 0xA3] @
         ''o) arredondar.'',
        ''--------------------------------------------------------------------'',
        [CHR 0x0A] @ ''- Valor Desconto INSS (8.45%): R$ 253,41'',
        [CHR 0x0A] @ ''- Sem desconto de VR.'',
        [CHR 0x0A] @ ''- Valor Desconto VT ('' @ fs 6 @ ''%): R$ 180,00'',
        [CHR 0x0A] @ ''- Sem desconto de Plano de Sa'' @ [CHR 0xC3, CHR 0xBA] @ ''de.'',
        [CHR 0x0A] @ ''- Sem desconto de Plano Odontol'' @ [CHR 0xC3, CHR 0xB3] @
         ''gico.'',
        [CHR 0x0A] @ ''- Valor Total Desconto (INSS + VR + VT + Sa'' @
         [CHR 0xC3, CHR 0xBA] @ ''de + Odontol'' @ [CHR 0xC3, CHR 0xB3] @
         ''gico): R$ 433,41'',
        ''--------------------------------------------------------------------'',
        [CHR 0x0A] @
         ''- Total de Proventos: R$ 3.303,60 Reais. | Obs.: A empresa pode (ou n'' @
         [CHR 0xC3, CHR 0xA3] @ ''o) arredondar.'',
        [CHR 0x0A] @
         ''- Total Insalubridade: R$ 303,60 Reais. | Obs.: A empresa pode (ou n'' @
         [CHR 0xC3, CHR 0xA3] @ ''o) arredondar.'',
        ''--------------------------------------------------------------------'',
        [CHR 0x0A] @ ''- Sal'' @ [CHR 0xC3, CHR 0xA1] @ ''rio L'' @ [CHR 0xC3, CHR 0xAD] @
         ''quido: R$ 2.870,19 Reais. | Obs.: A empresa pode (ou n'' @ [CHR 0xC3, CHR 0xA3] @
         ''o) arredondar.'',
        ''--------------------------------------------------------------------'']"
    unfolding linhas_def calculos_scenario Let_def
    by (simp add: p [simplified] textos_scenario [simplified] SEPARATOR_def nl_def obs_def
        a_acute_def a_tilde_def i_acute_def o_acute_def u_acute_def linha_inss_def
        linha_adiantamento_def linha_adiantamentos_def
        sem_desconto_vr_def linha_desconto_vt_def sem_desconto_saude_def
        sem_desconto_odonto_def linha_total_descontos_def linha_salario_liquido_def)
  have l1: "linhas (\<lambda>v. Inl e) fs 3000.00 0 20 20.00 22 0 6 0 0 =
            linhas currency_C fs 3000.00 0 20 20.00 22 0 6 0 0"
    by (rule linhas_cong [OF fv])
  have l2: "linhas currency_pt_BR fs 3000.00 0 20 20.00 22 0 6 0 0 =
            linhas currency_C fs 3000.00 0 20 20.00 22 0 6 0 0"
    by (rule linhas_cong [OF fb])
  have ret: "(case linhas (\<lambda>v. Inl e) fs 3000.00 0 20 20.00 22 0 6 0 0 of
      Inl err \<Rightarrow> False
    | Inr ls \<Rightarrow>
        get_resultados_string (\<lambda>v. Inl e) fs 3000.00 0 20 20.00 22 0 6 0 0 =
          Inr (hd ls @ concat (map (\<lambda>l. CHR 0x0A # l) (tl ls))) \<and>
        get_resultados_string currency_pt_BR fs 3000.00 0 20 20.00 22 0 6 0 0 =
          Inr (hd ls @ concat (map (\<lambda>l. CHR 0x0A # l) (tl ls))) \<and>
        ls =
       [''- Sal'' @ [CHR 0xC3, CHR 0xA1] @ ''rio Bruto: R$ 3.000,00'',
        [CHR 0x0A] @ ''- Valor Adiantamento Sal'' @ [CHR 0xC3, CHR 0xA1] @ ''rio ('' @
         fs 0 @ ''%): R$ 0,00'',
        [CHR 0x0A] @ ''- Valor VR (22 Dias): R$ 440,00'',
        [CHR 0x0A] @
         ''- Valor Adiantamento Insalubridade: R$ 121,44 Reais. | Obs.: A empresa pode (ou n'' @
         [CHR 0xC3, CHR 0xA3] @ ''o) arredondar.'',
        [CHR 0x0A] @ ''- Valor Final Insalubridade: R$ 182,16'',
        [CHR 0x0A] @
         ''- Valor Adiantamento Insalubridade (40%) + Valor Adiantamento Sal'' @
         [CHR 0xC3, CHR 0xA1] @ ''rio ('' @ fs 0 @
         ''%): R$ 121,44 Reais. | Obs.: A empresa pode (ou n'' @ [CHR 0xC3, CHR 0xA3] @
         ''o) arredondar.'',
        ''--------------------------------------------------------------------'',
        [CHR 0x0A] @ ''- Valor Desconto INSS (8.45%): R$ 253,41'',
        [CHR 0x0A] @ ''- Sem desconto de VR.'',
        [CHR 0x0A] @ ''- Valor Desconto VT ('' @ fs 6 @ ''%): R$ 180,00'',
        [CHR 0x0A] @ ''- Sem desconto de Plano de Sa'' @ [CHR 0xC3, CHR 0xBA] @ ''de.'',
        [CHR 0x0A] @ ''- Sem desconto de Plano Odontol'' @ [CHR 0xC3, CHR 0xB3] @
         ''gico.'',
        [CHR 0x0A] @ ''- Valor Total Desconto (INSS + VR + VT + Sa'' @
         [CHR 0xC3, CHR 0xBA] @ ''de + Odontol'' @ [CHR 0xC3, CHR 0xB3] @
         ''gico): R$ 433,41'',
        ''--------------------------------------------------------------------'',
        [CHR 0x0A] @
         ''- Total de Proventos: R$ 3.303,60 Reais. | Obs.: A empresa pode (ou n'' @
         [CHR 0xC3, CHR 0xA3] @ ''o) arredondar.'',
        [CHR 0x0A] @
         ''- Total Insalubridade: R$ 303,60 Reais. | Obs.: A empresa pode (ou n'' @
         [CHR 0xC3, CHR 0xA3] @ ''o) arredondar.'',
        ''--------------------------------------------------------------------'',
        [CHR 0x0A] @ ''- Sal'' @ [CHR 0xC3, CHR 0xA1] @ ''rio L'' @ [CHR 0xC3, CHR 0xAD] @
         ''quido: R$ 2.870,19 Reais. | Obs.: A empresa pode (ou n'' @ [CHR 0xC3, CHR 0xA3] @
         ''o) arredondar.'',
        ''--------------------------------------------------------------------''])"
    unfolding get_resultados_string_def l1 l2 ls by (simp add: join_def nl_def)
  have num: "desconto_inss ?c =
     1518 * 0.075 + (2793.88 - 1518) * 0.09 + (3000 - 2793.88) * 0.12 \<and>
   desconto_inss ?c = 253.4136 \<and>
   insal_total ?c = 1518 * 0.20 \<and>
   insal_total ?c = 303.60 \<and>
   parcela_40 ?c = 121.44 \<and>
   parcela_60 ?c = 182.16 \<and>
   desconto_vt ?c = 3000 * 0.06 \<and>
   desconto_vt ?c = 180.00 \<and>
   desconto_vr ?c = 0 \<and>
   desconto_saude ?c = 0 \<and>
   desconto_odonto ?c = 0 \<and>
   salario_liquido ?c = 3000 - 253.4136 - 180.00 + 303.60 \<and>
   salario_liquido ?c = 2870.1864 \<and>
   \<bar>desconto_inss ?c - 253.41\<bar> < 0.005 \<and>
   \<bar>salario_liquido ?c - 2870.19\<bar> < 0.005"
    unfolding calculos_scenario by simp
  from num ret show ?thesis by (elim conjE) (intro conjI; assumption)
qed

end
